theory Spec2Isabelle
  imports Complex_Main
begin

section \<open>Values of the scripts\<close>

text \<open>
  A Python float, as far as the scripts look at it: they compare validation metrics with
  \<^verbatim>\<open><=\<close> and \<^verbatim>\<open>>\<close> and test them with \<^verbatim>\<open>np.isnan\<close>. Every comparison with NaN is
  false; the infinities bound the finite values.
\<close>

datatype pyfloat = NaN | NegInf | Finite real | PosInf

fun float_le :: "pyfloat \<Rightarrow> pyfloat \<Rightarrow> bool" where
  "float_le NaN y = False"
| "float_le x NaN = False"
| "float_le NegInf y = True"
| "float_le x PosInf = True"
| "float_le (Finite x) (Finite y) = (x \<le> y)"
| "float_le (Finite x) NegInf = False"
| "float_le PosInf y = False"

fun float_lt :: "pyfloat \<Rightarrow> pyfloat \<Rightarrow> bool" where
  "float_lt NaN y = False"
| "float_lt x NaN = False"
| "float_lt PosInf y = False"
| "float_lt x NegInf = False"
| "float_lt (Finite x) (Finite y) = (x < y)"
| "float_lt NegInf y = True"
| "float_lt (Finite x) PosInf = True"

fun isnan :: "pyfloat \<Rightarrow> bool" where
  "isnan NaN = True"
| "isnan x = False"

text \<open>The primitive values a state dictionary or a keyword argument holds.\<close>

datatype pyvalue = PInt int | PFloat pyfloat | PStr string | PBool bool

type_synonym pydict = "(string \<times> pyvalue) list"

type_synonym scalars = "(string \<times> pyfloat) list"

datatype error = IndexError | ValueError | NameError | TrialPruned | MissingCheckpoint | DataError

text \<open>
  A save directory, named by the values formatted into its path:
  \<^verbatim>\<open>./results/dntn/tabular-quantile/<DATA_NAME>/cuts=1/temp=0.1/seed=<SEED>\<close> in dntn.py and
  \<^verbatim>\<open><root_dir>/depth=<TREE_DEPTH>/reg=<REG>/seed=1337\<close> in tune_clustering.py.
\<close>

datatype path = DntnSaveDir string int | TuneSaveDir int pyfloat

record ('m, 'o) checkpoint =
  ckpt_model :: 'm
  ckpt_optimizer :: 'o
  ckpt_state :: pydict
  ckpt_kwargs :: pydict

datatype writer_call =
    AddScalars string scalars int
  | ExportScalarsToJson string
  | WriterClose

text \<open>The calls a run makes on the outside world, in the order it makes them.\<close>

datatype ('m, 'o) event =
    LoadData string int
  | MakeDirectory path
  | TrainStochastic int
  | Evaluate int pyfloat
  | SaveModel path "('m, 'o) checkpoint"
  | LrSchedulerStep pyfloat
  | LoadModel path
  | EvaluateTest pyfloat
  | DendrogramPurity pyfloat
  | Writer path writer_call

record ('m, 'o) world =
  disk :: "path \<rightharpoonup> ('m, 'o) checkpoint"
  trace :: "('m, 'o) event list"

definition emit :: "('m, 'o) event \<Rightarrow> ('m, 'o) world \<Rightarrow> ('m, 'o) world" where
  "emit ev w = w\<lparr>trace := trace w @ [ev]\<rparr>"

text \<open>
  The imported code the scripts call (torch, qhoptim, and the modules src.baselines,
  src.LT_models, src.optimization, src.metrics, src.datasets), as parameters: \<open>'m\<close> is a
  model, \<open>'o\<close> an optimizer together with its learning-rate scheduler.
\<close>

record ('m, 'o) library =
  load_data :: "string \<Rightarrow> int \<Rightarrow> bool"
  DNDT :: "int \<Rightarrow> 'm"
  LTRegressor :: "int \<Rightarrow> bool \<Rightarrow> 'm"
  QHAdam :: "'m \<Rightarrow> 'o"
  train_stochastic :: "pyfloat \<Rightarrow> int \<Rightarrow> 'm \<times> 'o \<Rightarrow> 'm \<times> 'o"
  evaluate :: "int \<Rightarrow> 'm \<Rightarrow> pyfloat"
  evaluate_test :: "'m \<Rightarrow> pyfloat"
  lr_scheduler_step :: "pyfloat \<Rightarrow> 'o \<Rightarrow> 'o"
  lr_of :: "'o \<Rightarrow> pyfloat"
  LT_dendrogram_purity :: "'m \<Rightarrow> pyfloat"
  norm_eta :: "pyfloat \<Rightarrow> 'm \<Rightarrow> pyfloat"
  norm_clamp_eta :: "pyfloat \<Rightarrow> 'm \<Rightarrow> pyfloat"
  norm_clamp_d :: "pyfloat \<Rightarrow> 'm \<Rightarrow> pyfloat"

section \<open>Checkpoints\<close>

text \<open>
  Modelled from the spec: the class methods \<^verbatim>\<open>save_model\<close> and \<^verbatim>\<open>load_model\<close> of DNDT
  (src/baselines.py) and LTRegressor (src/LT_models.py) are not among the sources. The spec
  has a Checkpoint as the serialized model, optimizer and State record, overwritten
  whenever the validation metric improves, and the sole artifact read back for the final
  evaluation. So \<open>save_model\<close> replaces what the save directory holds, and \<open>load_model\<close>
  returns the model stored there, and fails when nothing is stored.
\<close>

definition save_model ::
  "'m \<Rightarrow> 'o \<Rightarrow> pydict \<Rightarrow> path \<Rightarrow> pydict \<Rightarrow> ('m, 'o) world \<Rightarrow> ('m, 'o) world" where
  "save_model m opt st save_dir kwargs w =
     (let c = \<lparr>ckpt_model = m, ckpt_optimizer = opt, ckpt_state = st, ckpt_kwargs = kwargs\<rparr>
      in emit (SaveModel save_dir c) (w\<lparr>disk := (disk w)(save_dir \<mapsto> c)\<rparr>))"

definition load_model :: "path \<Rightarrow> ('m, 'o) world \<Rightarrow> (error + 'm) \<times> ('m, 'o) world" where
  "load_model save_dir w =
     (case disk w save_dir of
        None \<Rightarrow> (Inl MissingCheckpoint, emit (LoadModel save_dir) w)
      | Some c \<Rightarrow> (Inr (ckpt_model c), emit (LoadModel save_dir) w))"

section \<open>dntn.py\<close>

definition CUTS :: int where "CUTS = 1"
definition LR_dntn :: pyfloat where "LR_dntn = Finite 0.001"
definition BATCH_SIZE_dntn :: int where "BATCH_SIZE_dntn = 512"
definition EPOCHS_dntn :: int where "EPOCHS_dntn = 1"
definition SEEDS :: "int list" where "SEEDS = [1225, 1337, 2020, 6021991]"

subsection \<open>Command line\<close>

text \<open>
  \<^verbatim>\<open>int(s)\<close> on a string, base 10: optional surrounding blanks, an optional sign, then
  digits, where single underscores may separate digits. A character is a code point below
  256. The blanks that \<^verbatim>\<open>int\<close> skips are the C blanks 0x09 to 0x0D and 0x20 and, of the
  characters from 0x80 on, the Unicode blanks 0x85 and 0xA0; the separators 0x1C to 0x1F
  are not skipped, and no character from 0x80 on is a decimal digit.
\<close>

definition py_isspace :: "char \<Rightarrow> bool" where
  "py_isspace c = (c \<in> set [CHR 0x09, CHR 0x0A, CHR 0x0B, CHR 0x0C, CHR 0x0D, CHR 0x20,
                             CHR 0x85, CHR 0xA0])"

definition digit_of :: "char \<Rightarrow> nat option" where
  "digit_of c = map_of (zip ''0123456789'' [0, 1, 2, 3, 4, 5, 6, 7, 8, 9]) c"

fun more_digits :: "nat \<Rightarrow> string \<Rightarrow> nat option" where
  "more_digits acc [] = Some acc"
| "more_digits acc (c # cs) =
     (if c = CHR ''_'' then
        (case cs of
           [] \<Rightarrow> None
         | d # ds \<Rightarrow>
             (case digit_of d of
                None \<Rightarrow> None
              | Some k \<Rightarrow> more_digits (10 * acc + k) ds))
      else
        (case digit_of c of
           None \<Rightarrow> None
         | Some k \<Rightarrow> more_digits (10 * acc + k) cs))"

definition strip :: "string \<Rightarrow> string" where
  "strip s = rev (dropWhile py_isspace (rev (dropWhile py_isspace s)))"

definition unsigned_int :: "string \<Rightarrow> nat option" where
  "unsigned_int s =
     (case s of
        [] \<Rightarrow> None
      | c # cs \<Rightarrow> (case digit_of c of None \<Rightarrow> None | Some k \<Rightarrow> more_digits k cs))"

text \<open>
  The interpreter's limit on the digits of a converted string
  (\<^verbatim>\<open>sys.int_info.default_max_str_digits\<close>, 4300 since Python 3.11; 0 is no limit, as in
  the interpreters before): the digits are counted without the underscores, leading zeros
  included, and the limit is looked at above 640 digits only.
\<close>

definition digits_exceed :: "nat \<Rightarrow> string \<Rightarrow> bool" where
  "digits_exceed max_str_digits u =
     (let d = length (filter (\<lambda>c. c \<noteq> CHR ''_'') u)
      in 640 < d \<and> 0 < max_str_digits \<and> max_str_digits < d)"

definition py_int :: "nat \<Rightarrow> string \<Rightarrow> error + int" where
  "py_int max_str_digits s =
     (let t = strip s;
          (neg, u) = (case t of
                        [] \<Rightarrow> (False, t)
                      | c # r \<Rightarrow> if c = CHR ''-'' then (True, r)
                                 else if c = CHR ''+'' then (False, r)
                                 else (False, t))
      in case unsigned_int u of
           None \<Rightarrow> Inl ValueError
         | Some n \<Rightarrow>
             if digits_exceed max_str_digits u then Inl ValueError
             else Inr (if neg then - int n else int n))"

text \<open>
  The strings \<^verbatim>\<open>int\<close> is documented to take, to compare \<open>py_int\<close> with: blanks, a sign
  (nothing, plus or minus), a non-empty list of non-empty groups of decimal digits joined
  by single underscores, and blanks; the value is that of the digits read in base ten.
\<close>

definition is_digit :: "char \<Rightarrow> bool" where
  "is_digit c = (c \<in> set ''0123456789'')"

definition decimal_value :: "string \<Rightarrow> nat" where
  "decimal_value ds = foldl (\<lambda>a c. 10 * a + (of_char c - 48)) 0 ds"

definition join_groups :: "string list \<Rightarrow> string" where
  "join_groups gs =
     (case gs of [] \<Rightarrow> [] | g # rest \<Rightarrow> g @ concat (map (\<lambda>h. CHR ''_'' # h) rest))"

definition int_literal :: "string \<Rightarrow> string \<Rightarrow> string list \<Rightarrow> string \<Rightarrow> bool" where
  "int_literal ws1 sg gs ws2 =
     (list_all py_isspace ws1 \<and> list_all py_isspace ws2 \<and>
      (sg = [] \<or> sg = ''+'' \<or> sg = ''-'') \<and>
      gs \<noteq> [] \<and> list_all (\<lambda>g. g \<noteq> [] \<and> list_all is_digit g) gs)"

text \<open>\<^verbatim>\<open>sys.argv[i]\<close>: an index past the end raises IndexError.\<close>

definition argv_get :: "string list \<Rightarrow> nat \<Rightarrow> error + string" where
  "argv_get argv i = (if i < length argv then Inr (argv ! i) else Inl IndexError)"

text \<open>Lines 18 and 19: \<^verbatim>\<open>DATA_NAME = sys.argv[1]\<close>, \<^verbatim>\<open>WORKERS = int(sys.argv[2])\<close>.\<close>

definition read_args :: "nat \<Rightarrow> string list \<Rightarrow> error + (string \<times> int)" where
  "read_args max_str_digits argv =
     (case argv_get argv 1 of
        Inl err \<Rightarrow> Inl err
      | Inr DATA_NAME \<Rightarrow>
          (case argv_get argv 2 of
             Inl err \<Rightarrow> Inl err
           | Inr a \<Rightarrow>
               (case py_int max_str_digits a of
                  Inl err \<Rightarrow> Inl err
                | Inr WORKERS \<Rightarrow> Inr (DATA_NAME, WORKERS))))"

subsection \<open>The training loop of one seed\<close>

definition dntn_state :: "string \<Rightarrow> int \<Rightarrow> pydict" where
  "dntn_state DATA_NAME SEED =
     [(''batch-size'', PInt BATCH_SIZE_dntn),
      (''loss-function'', PStr ''BCE''),
      (''learning-rate'', PFloat LR_dntn),
      (''seed'', PInt SEED),
      (''dataset'', PStr DATA_NAME)]"

record ('m, 'o) train_vars =
  model :: 'm
  optimizer :: 'o
  best_val_loss :: pyfloat
  best_e :: int
  world :: "('m, 'o) world"

record ('m, 'o) dntn_vars = "('m, 'o) train_vars" +
  no_improv :: int

text \<open>\<^verbatim>\<open>range(n)\<close>\<close>

definition range_py :: "int \<Rightarrow> int list" where
  "range_py n = map int [0..<nat n]"

text \<open>
  One pass through the body of the epoch loop (lines 70 to 86). The first component is
  true when the body ends in \<^verbatim>\<open>break\<close>.
\<close>

definition dntn_epoch ::
  "('m, 'o) library \<Rightarrow> pydict \<Rightarrow> path \<Rightarrow> int \<Rightarrow> int \<Rightarrow> ('m, 'o) dntn_vars
     \<Rightarrow> bool \<times> ('m, 'o) dntn_vars" where
  "dntn_epoch lib st save_dir EPOCHS e s =
     (let (m, opt) = train_stochastic lib (Finite 0) e (model s, optimizer s);
          val_loss = evaluate lib e m;
          s1 = s\<lparr>model := m, optimizer := opt,
                 world := emit (Evaluate e val_loss) (emit (TrainStochastic e) (world s)),
                 no_improv := no_improv s + 1\<rparr>;
          s2 = (if float_le val_loss (best_val_loss s1) then
                  s1\<lparr>best_val_loss := val_loss, best_e := e,
                     world := save_model m opt st save_dir
                                [(''epoch'', PInt e), (''valid_ER'', PFloat val_loss)] (world s1),
                     no_improv := 0\<rparr>
                else s1);
          s3 = s2\<lparr>optimizer := lr_scheduler_step lib val_loss (optimizer s2),
                  world := emit (LrSchedulerStep val_loss) (world s2)\<rparr>
      in (no_improv s3 = EPOCHS div 5, s3))"

fun dntn_epochs ::
  "('m, 'o) library \<Rightarrow> pydict \<Rightarrow> path \<Rightarrow> int \<Rightarrow> int list \<Rightarrow> ('m, 'o) dntn_vars
     \<Rightarrow> ('m, 'o) dntn_vars" where
  "dntn_epochs lib st save_dir EPOCHS [] s = s"
| "dntn_epochs lib st save_dir EPOCHS (e # es) s =
     (case dntn_epoch lib st save_dir EPOCHS e s of
        (brk, s') \<Rightarrow> if brk then s' else dntn_epochs lib st save_dir EPOCHS es s')"

text \<open>Lines 66 to 68: the variables of the loop before its first epoch.\<close>

definition dntn_init :: "('m, 'o) library \<Rightarrow> int \<Rightarrow> ('m, 'o) world \<Rightarrow> ('m, 'o) dntn_vars" where
  "dntn_init lib SEED w =
     (let m = DNDT lib SEED
      in \<lparr>model = m, optimizer = QHAdam lib m, best_val_loss = PosInf, best_e = - 1,
          world = w, no_improv = 0\<rparr>)"

text \<open>The body of the loop over the seeds (lines 38 to 100), returning the test loss.\<close>

definition dntn_seed ::
  "('m, 'o) library \<Rightarrow> int \<Rightarrow> string \<Rightarrow> int \<Rightarrow> ('m, 'o) world
     \<Rightarrow> (error + pyfloat) \<times> ('m, 'o) world" where
  "dntn_seed lib EPOCHS DATA_NAME SEED w =
     (let save_dir = DntnSaveDir DATA_NAME SEED;
          s = dntn_epochs lib (dntn_state DATA_NAME SEED) save_dir EPOCHS (range_py EPOCHS)
                (dntn_init lib SEED (emit (MakeDirectory save_dir) w))
      in case load_model save_dir (world s) of
           (Inl err, w') \<Rightarrow> (Inl err, w')
         | (Inr m, w') \<Rightarrow>
             (let test_loss = evaluate_test lib m
              in (Inr test_loss, emit (EvaluateTest test_loss) w')))"

fun dntn_seeds ::
  "('m, 'o) library \<Rightarrow> int \<Rightarrow> string \<Rightarrow> int list \<Rightarrow> pyfloat list \<Rightarrow> ('m, 'o) world
     \<Rightarrow> (error + pyfloat list) \<times> ('m, 'o) world" where
  "dntn_seeds lib EPOCHS DATA_NAME [] test_losses w = (Inr test_losses, w)"
| "dntn_seeds lib EPOCHS DATA_NAME (SEED # rest) test_losses w =
     (case dntn_seed lib EPOCHS DATA_NAME SEED w of
        (Inl err, w') \<Rightarrow> (Inl err, w')
      | (Inr test_loss, w') \<Rightarrow>
          dntn_seeds lib EPOCHS DATA_NAME rest (test_losses @ [test_loss]) w')"

text \<open>
  The script, run by an interpreter with the given digit limit: the arguments are read first, then the data set and its loaders are built
  (\<open>load_data\<close> is false when that raises), then every seed is trained and tested. The
  result is the list \<^verbatim>\<open>test_losses\<close>; the statistics printed from it are not modelled.
\<close>

definition dntn_main ::
  "('m, 'o) library \<Rightarrow> nat \<Rightarrow> string list \<Rightarrow> ('m, 'o) world
     \<Rightarrow> (error + pyfloat list) \<times> ('m, 'o) world" where
  "dntn_main lib max_str_digits argv w =
     (case read_args max_str_digits argv of
        Inl err \<Rightarrow> (Inl err, w)
      | Inr (DATA_NAME, WORKERS) \<Rightarrow>
          (let w1 = emit (LoadData DATA_NAME WORKERS) w
           in if load_data lib DATA_NAME WORKERS
              then dntn_seeds lib EPOCHS_dntn DATA_NAME SEEDS [] w1
              else (Inl DataError, w1)))"

section \<open>src/monitors.py\<close>

text \<open>
  A MonitorTree holds a SummaryWriter, known here by its log directory, and the pruning
  flag; the writer's calls are written to the trace of the world.
\<close>

record MonitorTree =
  writer :: path
  pruning :: bool

definition MonitorTree_init :: "bool \<Rightarrow> path \<Rightarrow> MonitorTree" where
  "MonitorTree_init pruning_arg logdir = \<lparr>writer = logdir, pruning = pruning_arg\<rparr>"

definition add_scalars ::
  "path \<Rightarrow> string \<Rightarrow> scalars \<Rightarrow> int \<Rightarrow> ('m, 'o) world \<Rightarrow> ('m, 'o) world" where
  "add_scalars wr key item it w = emit (Writer wr (AddScalars key item it)) w"

definition eta_group :: "('m, 'o) library \<Rightarrow> 'm \<Rightarrow> scalars" where
  "eta_group lib m =
     [(''linf'', norm_eta lib PosInf m),
      (''l1'', norm_eta lib (Finite 1) m),
      (''l0'', norm_clamp_eta lib (Finite 0) m)]"

definition d_group :: "('m, 'o) library \<Rightarrow> 'm \<Rightarrow> scalars" where
  "d_group lib m = [(''l0'', norm_clamp_d lib (Finite 0) m)]"

definition MonitorTree_write ::
  "('m, 'o) library \<Rightarrow> MonitorTree \<Rightarrow> 'm \<Rightarrow> int \<Rightarrow> bool \<Rightarrow> (string \<times> scalars) list
     \<Rightarrow> ('m, 'o) world \<Rightarrow> ('m, 'o) world" where
  "MonitorTree_write lib self m it report_tree metrics w =
     (let w1 = (if report_tree \<and> pruning self then
                  add_scalars (writer self) ''variables/d_group'' (d_group lib m) it
                    (add_scalars (writer self) ''variables/eta_group'' (eta_group lib m) it w)
                else w)
      in fold (\<lambda>(key, item). add_scalars (writer self) key item it) metrics w1)"

definition default_logfile :: string where
  "default_logfile = ''./monitor_scalars.json''"

definition MonitorTree_close ::
  "MonitorTree \<Rightarrow> string \<Rightarrow> ('m, 'o) world \<Rightarrow> ('m, 'o) world" where
  "MonitorTree_close self logfile w =
     emit (Writer (writer self) WriterClose)
       (emit (Writer (writer self) (ExportScalarsToJson logfile)) w)"

section \<open>tune_clustering.py\<close>

definition SEED_tune :: int where "SEED_tune = 1337"
definition DATA_NAME_tune :: string where "DATA_NAME_tune = ''COVTYPE''"
definition LR_tune :: pyfloat where "LR_tune = Finite 0.1"
definition EPOCHS_tune :: int where "EPOCHS_tune = 50"

text \<open>Lines 43 to 51; the data set is one of the two the script knows.\<close>

definition BATCH_SIZE_tune :: int where
  "BATCH_SIZE_tune = (if DATA_NAME_tune = ''ALOI'' then 128 else 512)"

record trial =
  TREE_DEPTH :: int
  REG :: pyfloat

definition tune_state :: "pyfloat \<Rightarrow> pydict" where
  "tune_state reg =
     [(''batch-size'', PInt BATCH_SIZE_tune),
      (''loss-function'', PStr ''MSE''),
      (''learning-rate'', PFloat LR_tune),
      (''seed'', PInt SEED_tune),
      (''dataset'', PStr DATA_NAME_tune),
      (''reg'', PFloat reg),
      (''linear'', PBool True)]"

record ('m, 'o) tune_vars = "('m, 'o) train_vars" +
  loop_e :: "int option"

text \<open>
  One pass through the body of the epoch loop of \<^verbatim>\<open>objective\<close> (lines 107 to 122). The first
  component is true when the body raises \<^verbatim>\<open>optuna.TrialPruned\<close>.
\<close>

definition tune_epoch ::
  "('m, 'o) library \<Rightarrow> pydict \<Rightarrow> path \<Rightarrow> MonitorTree \<Rightarrow> pyfloat \<Rightarrow> int
     \<Rightarrow> ('m, 'o) tune_vars \<Rightarrow> bool \<times> ('m, 'o) tune_vars" where
  "tune_epoch lib st save_dir monitor reg e s =
     (let (m, opt) = train_stochastic lib reg e (model s, optimizer s);
          val_loss = evaluate lib e m;
          s1 = s\<lparr>model := m, optimizer := opt,
                 world := emit (Evaluate e val_loss) (emit (TrainStochastic e) (world s)),
                 loop_e := Some e\<rparr>;
          s2 = (if float_le val_loss (best_val_loss s1) then
                  s1\<lparr>best_val_loss := val_loss, best_e := e,
                     world := save_model m opt st save_dir
                                [(''epoch'', PInt e), (''val_mse'', PFloat val_loss)] (world s1)\<rparr>
                else s1);
          opt' = lr_scheduler_step lib val_loss (optimizer s2);
          s3 = s2\<lparr>optimizer := opt',
                  world := MonitorTree_write lib monitor m e False
                             [(''train'', [(''lr'', lr_of lib opt')])]
                             (emit (LrSchedulerStep val_loss) (world s2))\<rparr>
      in if isnan val_loss
         then (True, s3\<lparr>world := MonitorTree_close monitor default_logfile (world s3)\<rparr>)
         else (False, s3))"

fun tune_epochs ::
  "('m, 'o) library \<Rightarrow> pydict \<Rightarrow> path \<Rightarrow> MonitorTree \<Rightarrow> pyfloat \<Rightarrow> int list
     \<Rightarrow> ('m, 'o) tune_vars \<Rightarrow> bool \<times> ('m, 'o) tune_vars" where
  "tune_epochs lib st save_dir monitor reg [] s = (False, s)"
| "tune_epochs lib st save_dir monitor reg (e # es) s =
     (case tune_epoch lib st save_dir monitor reg e s of
        (pruned, s') \<Rightarrow>
          if pruned then (True, s') else tune_epochs lib st save_dir monitor reg es s')"

text \<open>Lines 104 and 105, with the model and optimizer of lines 77 and 83.\<close>

definition tune_init ::
  "('m, 'o) library \<Rightarrow> int \<Rightarrow> bool \<Rightarrow> ('m, 'o) world \<Rightarrow> ('m, 'o) tune_vars" where
  "tune_init lib depth pruning_flag w =
     (let m = LTRegressor lib depth pruning_flag
      in \<lparr>model = m, optimizer = QHAdam lib m, best_val_loss = PosInf, best_e = - 1,
          world = w, loop_e = None\<rparr>)"

text \<open>
  \<^verbatim>\<open>objective(trial)\<close>, the trial given by the two values it suggests. After the loop the
  name \<^verbatim>\<open>e\<close> is bound only when the loop ran an epoch.
\<close>

definition objective ::
  "('m, 'o) library \<Rightarrow> int \<Rightarrow> trial \<Rightarrow> ('m, 'o) world
     \<Rightarrow> (error + pyfloat) \<times> ('m, 'o) world" where
  "objective lib EPOCHS t w =
     (let pruning_flag = float_lt (Finite 0) (REG t);
          save_dir = TuneSaveDir (TREE_DEPTH t) (REG t);
          monitor = MonitorTree_init pruning_flag save_dir;
          (pruned, s) = tune_epochs lib (tune_state (REG t)) save_dir monitor (REG t)
                          (range_py EPOCHS)
                          (tune_init lib (TREE_DEPTH t) pruning_flag
                             (emit (MakeDirectory save_dir) w))
      in if pruned then (Inl TrialPruned, world s)
         else
           (case load_model save_dir (world s) of
              (Inl err, w') \<Rightarrow> (Inl err, w')
            | (Inr m, w') \<Rightarrow>
                (let score = LT_dendrogram_purity lib m;
                     w1 = emit (DendrogramPurity score) w'
                 in case loop_e s of
                      None \<Rightarrow> (Inl NameError, w1)
                    | Some e \<Rightarrow>
                        (Inr score,
                         MonitorTree_close monitor default_logfile
                           (MonitorTree_write lib monitor m e False
                              [(''val'', [(''Dendrogram Purity'', score)])] w1)))))"

section \<open>Observations on a run\<close>

text \<open>The events a run added to the trace it started from.\<close>

definition new_events :: "('m, 'o) world \<Rightarrow> ('m, 'o) world \<Rightarrow> ('m, 'o) event list" where
  "new_events w w' = drop (length (trace w)) (trace w')"

fun is_train :: "('m, 'o) event \<Rightarrow> bool" where
  "is_train (TrainStochastic e) = True"
| "is_train ev = False"

fun is_save :: "('m, 'o) event \<Rightarrow> bool" where
  "is_save (SaveModel d c) = True"
| "is_save ev = False"

fun is_nan_eval :: "('m, 'o) event \<Rightarrow> bool" where
  "is_nan_eval (Evaluate e v) = isnan v"
| "is_nan_eval ev = False"

fun is_load :: "('m, 'o) event \<Rightarrow> bool" where
  "is_load (LoadModel d) = True"
| "is_load ev = False"

fun carries_state :: "pydict \<Rightarrow> ('m, 'o) event \<Rightarrow> bool" where
  "carries_state st (SaveModel p c) = (ckpt_state c = st)"
| "carries_state st ev = True"

text \<open>The epochs a run trained, in order.\<close>

fun trained :: "('m, 'o) event list \<Rightarrow> int list" where
  "trained [] = []"
| "trained (TrainStochastic e # evs) = e # trained evs"
| "trained (ev # evs) = trained evs"

text \<open>
  The best-checkpoint policy, read off a trace. The state is the running minimum, the best
  epoch, and an evaluation that was tie-or-better than the minimum and waits for its save.
  An evaluation that is tie-or-better must be followed at once by a save to \<open>dir\<close> that
  carries the state record \<open>st\<close>, the epoch and the metric (under the keyword \<open>key\<close>), and
  that save makes the metric and the epoch the new minimum and best epoch; no other save
  may occur. The result is None as soon as the trace breaks this.
\<close>

fun policy_step ::
  "path \<Rightarrow> pydict \<Rightarrow> string \<Rightarrow> ('m, 'o) event \<Rightarrow> pyfloat \<times> int \<times> (int \<times> pyfloat) option
     \<Rightarrow> (pyfloat \<times> int \<times> (int \<times> pyfloat) option) option" where
  "policy_step dir st key (Evaluate e v) (best, be, pending) =
     (if pending \<noteq> None then None
      else if float_le v best then Some (best, be, Some (e, v))
      else Some (best, be, None))"
| "policy_step dir st key (SaveModel p c) (best, be, pending) =
     (case pending of
        None \<Rightarrow> None
      | Some (e, v) \<Rightarrow>
          if p = dir \<and> ckpt_state c = st \<and>
             ckpt_kwargs c = [(''epoch'', PInt e), (key, PFloat v)]
          then Some (v, e, None) else None)"
| "policy_step dir st key ev (best, be, pending) =
     (if pending \<noteq> None then None else Some (best, be, None))"

fun policy ::
  "path \<Rightarrow> pydict \<Rightarrow> string \<Rightarrow> ('m, 'o) event list
     \<Rightarrow> (pyfloat \<times> int \<times> (int \<times> pyfloat) option) option
     \<Rightarrow> (pyfloat \<times> int \<times> (int \<times> pyfloat) option) option" where
  "policy dir st key [] r = r"
| "policy dir st key (ev # evs) r =
     policy dir st key evs
       (case r of None \<Rightarrow> None | Some x \<Rightarrow> policy_step dir st key ev x)"

text \<open>The number of epochs a run trained.\<close>

definition epochs_run :: "('m, 'o) event list \<Rightarrow> nat" where
  "epochs_run evs = length (filter is_train evs)"

definition dntn_epochs_run ::
  "('m, 'o) library \<Rightarrow> int \<Rightarrow> string \<Rightarrow> int \<Rightarrow> ('m, 'o) world \<Rightarrow> nat" where
  "dntn_epochs_run lib EPOCHS DATA_NAME SEED w =
     epochs_run (new_events w (snd (dntn_seed lib EPOCHS DATA_NAME SEED w)))"

text \<open>What a list of events leaves on the disk: every save replaces its directory's entry.\<close>

fun replay ::
  "('m, 'o) event list \<Rightarrow> (path \<rightharpoonup> ('m, 'o) checkpoint) \<Rightarrow> (path \<rightharpoonup> ('m, 'o) checkpoint)" where
  "replay [] d = d"
| "replay (SaveModel p c # evs) d = replay evs (d(p \<mapsto> c))"
| "replay (ev # evs) d = replay evs d"

text \<open>The last save among a list of events.\<close>

fun last_save :: "('m, 'o) event list \<Rightarrow> (path \<times> ('m, 'o) checkpoint) option" where
  "last_save [] = None"
| "last_save (ev # evs) =
     (case last_save evs of
        Some x \<Rightarrow> Some x
      | None \<Rightarrow> (case ev of SaveModel p c \<Rightarrow> Some (p, c) | _ \<Rightarrow> None))"

text \<open>
  A save of the loop whose directory is \<open>dir\<close>, whose state record is \<open>st\<close> and whose
  metric is passed under the keyword \<open>key\<close>: it goes to \<open>dir\<close>, carries \<open>st\<close>, and its
  metric is a number.
\<close>

fun save_ok :: "path \<Rightarrow> pydict \<Rightarrow> string \<Rightarrow> ('m, 'o) event \<Rightarrow> bool" where
  "save_ok dir st key (SaveModel p c) =
     (p = dir \<and> ckpt_state c = st \<and>
      (\<exists>e v. ckpt_kwargs c = [(''epoch'', PInt e), (key, PFloat v)] \<and> v \<noteq> NaN))"
| "save_ok dir st key ev = True"

text \<open>
  An instance of the library for running the scripts on concrete metrics: a model is the
  number of training passes it has seen, an optimizer the number of scheduler steps, and
  the validation metric of epoch \<open>e\<close> is read from a list (NaN past its end).
\<close>

definition example_lib :: "pyfloat list \<Rightarrow> (nat, nat) library" where
  "example_lib vals =
     \<lparr>load_data = (\<lambda>name workers. True),
      DNDT = (\<lambda>seed. 0),
      LTRegressor = (\<lambda>depth pruned. 0),
      QHAdam = (\<lambda>m. 0),
      train_stochastic = (\<lambda>reg e (m, opt). (Suc m, opt)),
      evaluate = (\<lambda>e m. if 0 \<le> e \<and> nat e < length vals then vals ! nat e else NaN),
      evaluate_test = (\<lambda>m. Finite (real m)),
      lr_scheduler_step = (\<lambda>v opt. Suc opt),
      lr_of = (\<lambda>opt. Finite (real opt)),
      LT_dendrogram_purity = (\<lambda>m. Finite (real m)),
      norm_eta = (\<lambda>p m. Finite (real m)),
      norm_clamp_eta = (\<lambda>p m. Finite (real m)),
      norm_clamp_d = (\<lambda>p m. Finite (real m))\<rparr>"

definition empty_world :: "(nat, nat) world" where
  "empty_world = \<lparr>disk = Map.empty, trace = []\<rparr>"

text \<open>
  A stretch of a training loop from world \<open>w\<close> to world \<open>w'\<close>: it adds the events \<open>evs\<close> to the
  trace, the disk is what these events leave, every save among them is a save of the loop,
  and none of them loads a checkpoint.
\<close>

definition run_ok ::
  "path \<Rightarrow> pydict \<Rightarrow> string \<Rightarrow> ('m, 'o) world \<Rightarrow> ('m, 'o) world \<Rightarrow> ('m, 'o) event list
     \<Rightarrow> bool" where
  "run_ok dir st key w w' evs =
     (trace w' = trace w @ evs \<and> disk w' = replay evs (disk w) \<and>
      list_all (\<lambda>ev. save_ok dir st key ev \<and> \<not> is_load ev) evs)"

section \<open>Basic facts\<close>

lemma float_le_NaN_right [simp]: "float_le x NaN = False"
  by (cases x) simp_all

lemma float_le_PosInf [simp]: "float_le x PosInf = (x \<noteq> NaN)"
  by (cases x) simp_all

lemma float_le_not_NaN: "float_le x y \<Longrightarrow> x \<noteq> NaN"
  by (cases x) simp_all

lemma isnan_iff [simp]: "isnan x = (x = NaN)"
  by (cases x) simp_all

lemma trace_emit [simp]: "trace (emit ev w) = trace w @ [ev]"
  by (simp add: emit_def)

lemma disk_emit [simp]: "disk (emit ev w) = disk w"
  by (simp add: emit_def)

lemma trace_save_model [simp]:
  "trace (save_model m opt st d kw w) =
     trace w @ [SaveModel d \<lparr>ckpt_model = m, ckpt_optimizer = opt, ckpt_state = st, ckpt_kwargs = kw\<rparr>]"
  by (simp add: save_model_def Let_def)

lemma disk_save_model [simp]:
  "disk (save_model m opt st d kw w) =
     (disk w)(d \<mapsto> \<lparr>ckpt_model = m, ckpt_optimizer = opt, ckpt_state = st, ckpt_kwargs = kw\<rparr>)"
  by (simp add: save_model_def Let_def)

lemma trace_fold_add_scalars:
  "trace (fold (\<lambda>(key, item). add_scalars wr key item it) metrics w) =
     trace w @ map (\<lambda>(key, item). Writer wr (AddScalars key item it)) metrics"
  by (induction metrics arbitrary: w) (auto simp: add_scalars_def)

lemma disk_fold_add_scalars:
  "disk (fold (\<lambda>(key, item). add_scalars wr key item it) metrics w) = disk w"
  by (induction metrics arbitrary: w) (auto simp: add_scalars_def)

lemma trace_MonitorTree_write:
  "trace (MonitorTree_write lib self m it report_tree metrics w) =
     trace w @
     (if report_tree \<and> pruning self
      then [Writer (writer self) (AddScalars ''variables/eta_group'' (eta_group lib m) it),
            Writer (writer self) (AddScalars ''variables/d_group'' (d_group lib m) it)]
      else []) @
     map (\<lambda>(key, item). Writer (writer self) (AddScalars key item it)) metrics"
  by (simp add: MonitorTree_write_def trace_fold_add_scalars add_scalars_def)

lemma disk_MonitorTree_write [simp]:
  "disk (MonitorTree_write lib self m it report_tree metrics w) = disk w"
  by (simp add: MonitorTree_write_def disk_fold_add_scalars add_scalars_def)

lemma trace_MonitorTree_close [simp]:
  "trace (MonitorTree_close self logfile w) =
     trace w @ [Writer (writer self) (ExportScalarsToJson logfile), Writer (writer self) WriterClose]"
  by (simp add: MonitorTree_close_def)

lemma disk_MonitorTree_close [simp]:
  "disk (MonitorTree_close self logfile w) = disk w"
  by (simp add: MonitorTree_close_def)

lemma new_events_append: "trace w' = trace w @ evs \<Longrightarrow> new_events w w' = evs"
  by (simp add: new_events_def)

lemma range_py_Cons: "1 \<le> n \<Longrightarrow> range_py n = 0 # map int [1..<nat n]"
  by (simp add: range_py_def upt_conv_Cons)

subsection \<open>Saves and the disk\<close>

lemma replay_append: "replay (xs @ ys) d = replay ys (replay xs d)"
proof (induction xs arbitrary: d)
  case Nil
  then show ?case by simp
next
  case (Cons ev xs)
  then show ?case by (cases ev) (simp_all add: fun_upd_def)
qed

lemma replay_last_save:
  "\<forall>ev\<in>set evs. save_ok dir st key ev \<Longrightarrow>
   replay evs d dir = (case last_save evs of None \<Rightarrow> d dir | Some (p, c) \<Rightarrow> Some c)"
proof (induction evs arbitrary: d)
  case Nil
  then show ?case by simp
next
  case (Cons ev evs)
  then show ?case
    by (cases ev) (auto split: option.splits)
qed

lemma last_save_mem: "last_save evs = Some (p, c) \<Longrightarrow> SaveModel p c \<in> set evs"
  by (induction evs) (auto split: option.splits event.splits)

lemma last_save_None: "last_save evs = None \<Longrightarrow> \<not> list_ex is_save evs"
  by (induction evs) (auto split: option.splits event.splits)

lemma disk_after_saves:
  assumes ok: "\<forall>ev\<in>set evs. save_ok dir st key ev" and ex: "list_ex is_save evs"
  shows "\<exists>c. replay evs d dir = Some c \<and> SaveModel dir c \<in> set evs \<and>
             last_save evs = Some (dir, c)"
proof -
  from ex obtain p c where ls: "last_save evs = Some (p, c)"
    using last_save_None [of evs] by (cases "last_save evs") auto
  then have mem: "SaveModel p c \<in> set evs" by (rule last_save_mem)
  with ok have "save_ok dir st key (SaveModel p c)" by blast
  then have "p = dir" by simp
  with ls mem replay_last_save [OF ok, of d] show ?thesis by simp
qed

subsection \<open>Stretches of a run\<close>

lemma run_ok_Nil: "run_ok dir st key w w []"
  by (simp add: run_ok_def)

lemma run_ok_append:
  "run_ok dir st key w w1 evs1 \<Longrightarrow> run_ok dir st key w1 w2 evs2 \<Longrightarrow>
   run_ok dir st key w w2 (evs1 @ evs2)"
  by (simp add: run_ok_def replay_append)

lemma run_ok_new_events: "run_ok dir st key w w' evs \<Longrightarrow> new_events w w' = evs"
  by (simp add: run_ok_def new_events_def)

lemma run_ok_saves: "run_ok dir st key w w' evs \<Longrightarrow> \<forall>ev\<in>set evs. save_ok dir st key ev"
  by (simp add: run_ok_def list_all_iff)


lemma run_ok_disk:
  assumes "run_ok dir st key w w' evs" and "list_ex is_save evs"
  shows "\<exists>c. disk w' dir = Some c \<and> SaveModel dir c \<in> set evs \<and> last_save evs = Some (dir, c)"
proof -
  from assms(1) have "disk w' = replay evs (disk w)" by (simp add: run_ok_def)
  with disk_after_saves [OF run_ok_saves [OF assms(1)] assms(2), of "disk w"]
  show ?thesis by simp
qed

lemma save_ok_carries: "save_ok dir st key ev \<Longrightarrow> carries_state st ev"
  by (cases ev) simp_all

subsection \<open>One epoch\<close>

lemma dntn_epoch_eq:
  assumes "train_stochastic lib (Finite 0) e (model s, optimizer s) = (m, opt)"
    and "evaluate lib e m = v"
  shows "dntn_epoch lib st dir E e s =
     (if float_le v (best_val_loss s)
      then (0 = E div 5,
            s\<lparr>model := m, optimizer := lr_scheduler_step lib v opt,
              best_val_loss := v, best_e := e,
              world := emit (LrSchedulerStep v)
                         (save_model m opt st dir [(''epoch'', PInt e), (''valid_ER'', PFloat v)]
                            (emit (Evaluate e v) (emit (TrainStochastic e) (world s)))),
              no_improv := 0\<rparr>)
      else (no_improv s + 1 = E div 5,
            s\<lparr>model := m, optimizer := lr_scheduler_step lib v opt,
              world := emit (LrSchedulerStep v)
                         (emit (Evaluate e v) (emit (TrainStochastic e) (world s))),
              no_improv := no_improv s + 1\<rparr>))"
  using assms by (simp add: dntn_epoch_def Let_def)

lemma tune_epoch_eq:
  assumes "train_stochastic lib reg e (model s, optimizer s) = (m, opt)"
    and "evaluate lib e m = v"
  shows "tune_epoch lib st dir mon reg e s =
     (let w2 = emit (Evaluate e v) (emit (TrainStochastic e) (world s));
          w3 = (if float_le v (best_val_loss s)
                then save_model m opt st dir [(''epoch'', PInt e), (''val_mse'', PFloat v)] w2
                else w2);
          opt' = lr_scheduler_step lib v opt;
          w4 = MonitorTree_write lib mon m e False [(''train'', [(''lr'', lr_of lib opt')])]
                 (emit (LrSchedulerStep v) w3)
      in (v = NaN,
          s\<lparr>model := m, optimizer := opt',
            best_val_loss := (if float_le v (best_val_loss s) then v else best_val_loss s),
            best_e := (if float_le v (best_val_loss s) then e else best_e s),
            world := (if v = NaN then MonitorTree_close mon default_logfile w4 else w4),
            loop_e := Some e\<rparr>))"
  using assms by (simp add: tune_epoch_def Let_def)

lemma dntn_epoch_world:
  assumes ep: "dntn_epoch lib st dir E e s = (brk, s')"
  shows "\<exists>evs. run_ok dir st ''valid_ER'' (world s) (world s') evs
       \<and> filter is_train evs = [TrainStochastic e]
       \<and> (best_val_loss s = PosInf \<and>
            evaluate lib e (fst (train_stochastic lib (Finite 0) e (model s, optimizer s))) \<noteq> NaN
            \<longrightarrow> list_ex is_save evs)"
proof -
  obtain m opt where tr: "train_stochastic lib (Finite 0) e (model s, optimizer s) = (m, opt)"
    by (cases "train_stochastic lib (Finite 0) e (model s, optimizer s)")
  show ?thesis
  proof (cases "float_le (evaluate lib e m) (best_val_loss s)")
    case True
    then have "evaluate lib e m \<noteq> NaN" by (rule float_le_not_NaN)
    with True ep show ?thesis
      by (auto simp: dntn_epoch_eq [OF tr refl] run_ok_def)
  next
    case False
    with ep show ?thesis
      by (auto simp: dntn_epoch_eq [OF tr refl] tr run_ok_def)
  qed
qed

lemma tune_epoch_pruned:
  "fst (tune_epoch lib st dir mon reg e s) =
     (evaluate lib e (fst (train_stochastic lib reg e (model s, optimizer s))) = NaN)"
proof -
  obtain m opt where tr: "train_stochastic lib reg e (model s, optimizer s) = (m, opt)"
    by (cases "train_stochastic lib reg e (model s, optimizer s)")
  show ?thesis by (simp add: tune_epoch_eq [OF tr refl] tr Let_def)
qed

lemma tune_epoch_world:
  assumes ep: "tune_epoch lib st dir mon reg e s = (pruned, s')"
  shows "\<exists>evs. run_ok dir st ''val_mse'' (world s) (world s') evs
       \<and> pruned = list_ex is_nan_eval evs
       \<and> (pruned \<longrightarrow> (\<exists>lr. evs =
             [TrainStochastic e, Evaluate e NaN, LrSchedulerStep NaN,
              Writer (writer mon) (AddScalars ''train'' [(''lr'', lr)] e),
              Writer (writer mon) (ExportScalarsToJson default_logfile),
              Writer (writer mon) WriterClose]))
       \<and> (best_val_loss s = PosInf \<and> \<not> pruned \<longrightarrow> list_ex is_save evs)
       \<and> loop_e s' = Some e"
proof -
  obtain m opt where tr: "train_stochastic lib reg e (model s, optimizer s) = (m, opt)"
    by (cases "train_stochastic lib reg e (model s, optimizer s)")
  show ?thesis
  proof (cases "float_le (evaluate lib e m) (best_val_loss s)")
    case True
    then have "evaluate lib e m \<noteq> NaN" by (rule float_le_not_NaN)
    with True ep show ?thesis
      by (auto simp: tune_epoch_eq [OF tr refl] Let_def trace_MonitorTree_write run_ok_def)
  next
    case False
    with ep show ?thesis
      by (auto simp: tune_epoch_eq [OF tr refl] Let_def trace_MonitorTree_write run_ok_def)
  qed
qed

subsection \<open>The loops\<close>

lemma dntn_epochs_world:
  "\<exists>evs. run_ok dir st ''valid_ER'' (world s) (world (dntn_epochs lib st dir E es s)) evs
       \<and> epochs_run evs \<le> length es
       \<and> (es \<noteq> [] \<longrightarrow> 1 \<le> epochs_run evs)
       \<and> (best_val_loss s = PosInf \<and> es \<noteq> [] \<and>
            evaluate lib (hd es)
              (fst (train_stochastic lib (Finite 0) (hd es) (model s, optimizer s))) \<noteq> NaN
            \<longrightarrow> list_ex is_save evs)"
proof (induction es arbitrary: s)
  case Nil
  have "run_ok dir st ''valid_ER'' (world s) (world s) []" by (rule run_ok_Nil)
  then show ?case by (intro exI [of _ "[]"]) (simp add: epochs_run_def)
next
  case (Cons e es)
  obtain brk s1 where ep: "dntn_epoch lib st dir E e s = (brk, s1)"
    by (cases "dntn_epoch lib st dir E e s")
  from dntn_epoch_world [OF ep]
  obtain evs1 where 1: "run_ok dir st ''valid_ER'' (world s) (world s1) evs1"
    "filter is_train evs1 = [TrainStochastic e]"
    "best_val_loss s = PosInf \<and>
       evaluate lib e (fst (train_stochastic lib (Finite 0) e (model s, optimizer s))) \<noteq> NaN
       \<longrightarrow> list_ex is_save evs1"
    by blast
  show ?case
  proof (cases brk)
    case True
    with ep 1 show ?thesis by (auto simp: epochs_run_def)
  next
    case False
    from Cons.IH [of s1]
    obtain evs2 where 2:
      "run_ok dir st ''valid_ER'' (world s1) (world (dntn_epochs lib st dir E es s1)) evs2"
      "epochs_run evs2 \<le> length es"
      by blast
    have eq: "dntn_epochs lib st dir E (e # es) s = dntn_epochs lib st dir E es s1"
      using ep False by simp
    have "run_ok dir st ''valid_ER'' (world s) (world (dntn_epochs lib st dir E (e # es) s))
            (evs1 @ evs2)"
      unfolding eq using 1(1) 2(1) by (rule run_ok_append)
    moreover have "epochs_run (evs1 @ evs2) \<le> length (e # es)" "1 \<le> epochs_run (evs1 @ evs2)"
      using 1 2 by (simp_all add: epochs_run_def)
    moreover have "best_val_loss s = PosInf \<and> e # es \<noteq> [] \<and>
        evaluate lib (hd (e # es))
          (fst (train_stochastic lib (Finite 0) (hd (e # es)) (model s, optimizer s))) \<noteq> NaN
        \<longrightarrow> list_ex is_save (evs1 @ evs2)"
      using 1(3) by simp
    ultimately show ?thesis by blast
  qed
qed

lemma tune_epochs_world:
  assumes "tune_epochs lib st dir mon reg es s = (pruned, s')"
  shows "\<exists>evs. run_ok dir st ''val_mse'' (world s) (world s') evs
       \<and> pruned = list_ex is_nan_eval evs
       \<and> (pruned \<longrightarrow> (\<exists>pre e lr. \<not> list_ex is_nan_eval pre \<and> evs = pre @
             [TrainStochastic e, Evaluate e NaN, LrSchedulerStep NaN,
              Writer (writer mon) (AddScalars ''train'' [(''lr'', lr)] e),
              Writer (writer mon) (ExportScalarsToJson default_logfile),
              Writer (writer mon) WriterClose]))
       \<and> (best_val_loss s = PosInf \<and> es \<noteq> [] \<and>
            (\<not> pruned \<or>
             evaluate lib (hd es)
               (fst (train_stochastic lib reg (hd es) (model s, optimizer s))) \<noteq> NaN)
            \<longrightarrow> list_ex is_save evs)
       \<and> (\<not> pruned \<longrightarrow> loop_e s' = (if es = [] then loop_e s else Some (last es)))"
  using assms
proof (induction es arbitrary: s)
  case Nil
  then have "run_ok dir st ''val_mse'' (world s) (world s') []" "\<not> pruned" "s' = s"
    by (simp_all add: run_ok_Nil)
  then show ?case by (intro exI [of _ "[]"]) simp
next
  case (Cons e es)
  obtain p1 s1 where ep: "tune_epoch lib st dir mon reg e s = (p1, s1)"
    by (cases "tune_epoch lib st dir mon reg e s")
  from tune_epoch_pruned [of lib st dir mon reg e s] ep
  have p1: "p1 = (evaluate lib e (fst (train_stochastic lib reg e (model s, optimizer s))) = NaN)"
    by simp
  from tune_epoch_world [OF ep]
  obtain evs1 where 1: "run_ok dir st ''val_mse'' (world s) (world s1) evs1"
    "p1 = list_ex is_nan_eval evs1"
    "p1 \<longrightarrow> (\<exists>lr. evs1 =
             [TrainStochastic e, Evaluate e NaN, LrSchedulerStep NaN,
              Writer (writer mon) (AddScalars ''train'' [(''lr'', lr)] e),
              Writer (writer mon) (ExportScalarsToJson default_logfile),
              Writer (writer mon) WriterClose])"
    "best_val_loss s = PosInf \<and> \<not> p1 \<longrightarrow> list_ex is_save evs1"
    "loop_e s1 = Some e"
    by blast
  show ?case
  proof (cases p1)
    case True
    with Cons.prems ep have eq: "pruned" "s' = s1" by simp_all
    from True 1(3) obtain lr where lr: "evs1 = [] @
             [TrainStochastic e, Evaluate e NaN, LrSchedulerStep NaN,
              Writer (writer mon) (AddScalars ''train'' [(''lr'', lr)] e),
              Writer (writer mon) (ExportScalarsToJson default_logfile),
              Writer (writer mon) WriterClose]" by auto
    have "\<not> list_ex is_nan_eval ([] :: ('a, 'b) event list)" by simp
    with lr have "\<exists>pre e lr. \<not> list_ex is_nan_eval pre \<and> evs1 = pre @
             [TrainStochastic e, Evaluate e NaN, LrSchedulerStep NaN,
              Writer (writer mon) (AddScalars ''train'' [(''lr'', lr)] e),
              Writer (writer mon) (ExportScalarsToJson default_logfile),
              Writer (writer mon) WriterClose]" by blast
    with eq 1 True p1 show ?thesis by auto
  next
    case False
    with Cons.prems ep have rest: "tune_epochs lib st dir mon reg es s1 = (pruned, s')" by simp
    from Cons.IH [OF rest]
    obtain evs2 where 2: "run_ok dir st ''val_mse'' (world s1) (world s') evs2"
      "pruned = list_ex is_nan_eval evs2"
      "pruned \<longrightarrow> (\<exists>pre e lr. \<not> list_ex is_nan_eval pre \<and> evs2 = pre @
             [TrainStochastic e, Evaluate e NaN, LrSchedulerStep NaN,
              Writer (writer mon) (AddScalars ''train'' [(''lr'', lr)] e),
              Writer (writer mon) (ExportScalarsToJson default_logfile),
              Writer (writer mon) WriterClose])"
      "\<not> pruned \<longrightarrow> loop_e s' = (if es = [] then loop_e s1 else Some (last es))"
      by blast
    have a: "run_ok dir st ''val_mse'' (world s) (world s') (evs1 @ evs2)"
      using 1(1) 2(1) by (rule run_ok_append)
    have d: "pruned = list_ex is_nan_eval (evs1 @ evs2)"
      using 1 2 False by simp
    have e: "pruned \<longrightarrow> (\<exists>pre e lr. \<not> list_ex is_nan_eval pre \<and> evs1 @ evs2 = pre @
             [TrainStochastic e, Evaluate e NaN, LrSchedulerStep NaN,
              Writer (writer mon) (AddScalars ''train'' [(''lr'', lr)] e),
              Writer (writer mon) (ExportScalarsToJson default_logfile),
              Writer (writer mon) WriterClose])"
    proof
      assume pruned
      with 2(3) obtain pre e' lr where pre: "\<not> list_ex is_nan_eval pre" "evs2 = pre @
             [TrainStochastic e', Evaluate e' NaN, LrSchedulerStep NaN,
              Writer (writer mon) (AddScalars ''train'' [(''lr'', lr)] e'),
              Writer (writer mon) (ExportScalarsToJson default_logfile),
              Writer (writer mon) WriterClose]" by blast
      from 1(2) False pre(1) have "\<not> list_ex is_nan_eval (evs1 @ pre)" by simp
      moreover from pre(2) have "evs1 @ evs2 = (evs1 @ pre) @
             [TrainStochastic e', Evaluate e' NaN, LrSchedulerStep NaN,
              Writer (writer mon) (AddScalars ''train'' [(''lr'', lr)] e'),
              Writer (writer mon) (ExportScalarsToJson default_logfile),
              Writer (writer mon) WriterClose]" by simp
      ultimately show "\<exists>pre e lr. \<not> list_ex is_nan_eval pre \<and> evs1 @ evs2 = pre @
             [TrainStochastic e, Evaluate e NaN, LrSchedulerStep NaN,
              Writer (writer mon) (AddScalars ''train'' [(''lr'', lr)] e),
              Writer (writer mon) (ExportScalarsToJson default_logfile),
              Writer (writer mon) WriterClose]" by blast
    qed
    have f: "best_val_loss s = PosInf \<and> e # es \<noteq> [] \<and>
            (\<not> pruned \<or>
             evaluate lib (hd (e # es))
               (fst (train_stochastic lib reg (hd (e # es)) (model s, optimizer s))) \<noteq> NaN)
            \<longrightarrow> list_ex is_save (evs1 @ evs2)"
      using 1(4) False by simp
    have g: "\<not> pruned \<longrightarrow> loop_e s' = (if e # es = [] then loop_e s else Some (last (e # es)))"
      using 2(4) 1(5) by simp
    from a d e f g show ?thesis by blast
  qed
qed

subsection \<open>A whole run\<close>

text \<open>The run of one seed of dntn.py, in terms of the state the epoch loop ends in.\<close>

lemma dntn_seed_run:
  fixes lib :: "('m, 'o) library" and D :: string and SEED EPOCHS :: int
    and w :: "('m, 'o) world"
  defines "dir \<equiv> DntnSaveDir D SEED"
  defines "s \<equiv> dntn_epochs lib (dntn_state D SEED) (DntnSaveDir D SEED) EPOCHS (range_py EPOCHS)
                 (dntn_init lib SEED (emit (MakeDirectory (DntnSaveDir D SEED)) w))"
  shows "\<exists>evs. run_ok dir (dntn_state D SEED) ''valid_ER'' (emit (MakeDirectory dir) w) (world s) evs
       \<and> (EPOCHS \<le> 0 \<longrightarrow> evs = [])
       \<and> (1 \<le> EPOCHS \<longrightarrow> 1 \<le> epochs_run evs)
       \<and> (1 \<le> EPOCHS \<and>
            evaluate lib 0 (fst (train_stochastic lib (Finite 0) 0
                                   (DNDT lib SEED, QHAdam lib (DNDT lib SEED)))) \<noteq> NaN
            \<longrightarrow> list_ex is_save evs)
       \<and> disk (snd (dntn_seed lib EPOCHS D SEED w)) = disk (world s)
       \<and> fst (dntn_seed lib EPOCHS D SEED w) =
           (case disk (world s) dir of
              None \<Rightarrow> Inl MissingCheckpoint
            | Some c \<Rightarrow> Inr (evaluate_test lib (ckpt_model c)))
       \<and> new_events w (snd (dntn_seed lib EPOCHS D SEED w)) =
           MakeDirectory dir # evs @ LoadModel dir #
             (case disk (world s) dir of
                None \<Rightarrow> []
              | Some c \<Rightarrow> [EvaluateTest (evaluate_test lib (ckpt_model c))])"
proof -
  let ?ini = "dntn_init lib SEED (emit (MakeDirectory dir) w)"
  have ini: "world ?ini = emit (MakeDirectory dir) w" "best_val_loss ?ini = PosInf"
    "model ?ini = DNDT lib SEED" "optimizer ?ini = QHAdam lib (DNDT lib SEED)"
    by (simp_all add: dntn_init_def Let_def)
  from dntn_epochs_world [of dir "dntn_state D SEED" ?ini lib EPOCHS "range_py EPOCHS"]
  obtain evs where evs:
    "run_ok dir (dntn_state D SEED) ''valid_ER'' (world ?ini) (world s) evs"
    "epochs_run evs \<le> length (range_py EPOCHS)"
    "range_py EPOCHS \<noteq> [] \<longrightarrow> 1 \<le> epochs_run evs"
    "best_val_loss ?ini = PosInf \<and> range_py EPOCHS \<noteq> [] \<and>
       evaluate lib (hd (range_py EPOCHS))
         (fst (train_stochastic lib (Finite 0) (hd (range_py EPOCHS))
                 (model ?ini, optimizer ?ini))) \<noteq> NaN
       \<longrightarrow> list_ex is_save evs"
    unfolding s_def dir_def by blast
  have tr: "trace (world s) = trace w @ MakeDirectory dir # evs"
    using evs(1) by (simp add: run_ok_def ini)
  have a: "run_ok dir (dntn_state D SEED) ''valid_ER'' (emit (MakeDirectory dir) w) (world s) evs"
    using evs(1) by (simp add: ini)
  have b: "EPOCHS \<le> 0 \<longrightarrow> evs = []"
  proof
    assume "EPOCHS \<le> 0"
    then have "s = ?ini" by (simp add: s_def dir_def range_py_def)
    with tr show "evs = []" by (simp add: ini)
  qed
  have c: "1 \<le> EPOCHS \<longrightarrow> 1 \<le> epochs_run evs"
    using evs(3) by (auto simp: range_py_Cons)
  have d: "1 \<le> EPOCHS \<and>
            evaluate lib 0 (fst (train_stochastic lib (Finite 0) 0
                                   (DNDT lib SEED, QHAdam lib (DNDT lib SEED)))) \<noteq> NaN
            \<longrightarrow> list_ex is_save evs"
    using evs(4) by (auto simp: range_py_Cons ini)
  have seed: "dntn_seed lib EPOCHS D SEED w =
      (case disk (world s) dir of
         None \<Rightarrow> (Inl MissingCheckpoint, emit (LoadModel dir) (world s))
       | Some c \<Rightarrow> (Inr (evaluate_test lib (ckpt_model c)),
                    emit (EvaluateTest (evaluate_test lib (ckpt_model c)))
                      (emit (LoadModel dir) (world s))))"
    by (simp add: dntn_seed_def Let_def load_model_def s_def dir_def split: option.splits)
  have e: "disk (snd (dntn_seed lib EPOCHS D SEED w)) = disk (world s)"
    by (simp add: seed split: option.splits)
  have f: "fst (dntn_seed lib EPOCHS D SEED w) =
           (case disk (world s) dir of
              None \<Rightarrow> Inl MissingCheckpoint
            | Some c \<Rightarrow> Inr (evaluate_test lib (ckpt_model c)))"
    by (simp add: seed split: option.splits)
  have g: "new_events w (snd (dntn_seed lib EPOCHS D SEED w)) =
           MakeDirectory dir # evs @ LoadModel dir #
             (case disk (world s) dir of
                None \<Rightarrow> []
              | Some c \<Rightarrow> [EvaluateTest (evaluate_test lib (ckpt_model c))])"
    using tr by (simp add: seed new_events_def split: option.splits)
  from a b c d e f g show ?thesis by blast
qed


lemma last_range_py: "1 \<le> n \<Longrightarrow> last (range_py n) = n - 1"
proof -
  assume n: "1 \<le> n"
  then have ne: "[0..<nat n] \<noteq> []" by simp
  have "last (range_py n) = int (last [0..<nat n])"
    unfolding range_py_def using ne by (simp add: last_map)
  also have "last [0..<nat n] = nat n - 1"
    using n by (simp add: last_upt)
  finally show ?thesis using n by simp
qed

lemma run_ok_emit:
  "\<not> is_save ev \<Longrightarrow> \<not> is_load ev \<Longrightarrow> run_ok dir st key w (emit ev w) [ev]"
  by (cases ev) (simp_all add: run_ok_def)

lemma run_ok_last_save:
  assumes "run_ok dir st key w w' evs"
  shows "case last_save evs of
           None \<Rightarrow> disk w' dir = disk w dir
         | Some (p, c) \<Rightarrow> p = dir \<and> disk w' dir = Some c \<and> save_ok dir st key (SaveModel p c)"
proof (cases "last_save evs")
  case None
  with replay_last_save [OF run_ok_saves [OF assms], of "disk w"] assms
  show ?thesis by (simp add: run_ok_def)
next
  case (Some x)
  obtain p c where x: "x = (p, c)" by (cases x)
  from Some x have "SaveModel p c \<in> set evs" by (simp add: last_save_mem)
  with run_ok_saves [OF assms] have "save_ok dir st key (SaveModel p c)" by blast
  with replay_last_save [OF run_ok_saves [OF assms], of "disk w"] assms Some x
  show ?thesis by (simp add: run_ok_def)
qed

text \<open>A trial of tune_clustering.py, in terms of the result of its epoch loop.\<close>

lemma objective_run:
  fixes lib :: "('m, 'o) library" and t :: trial and EPOCHS :: int and w :: "('m, 'o) world"
  defines "dir \<equiv> TuneSaveDir (TREE_DEPTH t) (REG t)"
  defines "flag \<equiv> float_lt (Finite 0) (REG t)"
  defines "r \<equiv> tune_epochs lib (tune_state (REG t)) (TuneSaveDir (TREE_DEPTH t) (REG t))
                 (MonitorTree_init (float_lt (Finite 0) (REG t))
                    (TuneSaveDir (TREE_DEPTH t) (REG t)))
                 (REG t) (range_py EPOCHS)
                 (tune_init lib (TREE_DEPTH t) (float_lt (Finite 0) (REG t))
                    (emit (MakeDirectory (TuneSaveDir (TREE_DEPTH t) (REG t))) w))"
  shows "\<exists>evs. run_ok dir (tune_state (REG t)) ''val_mse'' (emit (MakeDirectory dir) w)
                 (world (snd r)) evs
       \<and> fst r = list_ex is_nan_eval evs
       \<and> (fst r \<longrightarrow> (\<exists>pre e lr. \<not> list_ex is_nan_eval pre \<and> evs = pre @
             [TrainStochastic e, Evaluate e NaN, LrSchedulerStep NaN,
              Writer dir (AddScalars ''train'' [(''lr'', lr)] e),
              Writer dir (ExportScalarsToJson default_logfile),
              Writer dir WriterClose]))
       \<and> (1 \<le> EPOCHS \<and>
            (\<not> fst r \<or>
             evaluate lib 0 (fst (train_stochastic lib (REG t) 0
                (LTRegressor lib (TREE_DEPTH t) flag,
                 QHAdam lib (LTRegressor lib (TREE_DEPTH t) flag)))) \<noteq> NaN)
            \<longrightarrow> list_ex is_save evs)
       \<and> disk (snd (objective lib EPOCHS t w)) = disk (world (snd r))
       \<and> fst (objective lib EPOCHS t w) =
           (if fst r then Inl TrialPruned
            else case disk (world (snd r)) dir of
                   None \<Rightarrow> Inl MissingCheckpoint
                 | Some c \<Rightarrow> if 1 \<le> EPOCHS then Inr (LT_dendrogram_purity lib (ckpt_model c))
                             else Inl NameError)
       \<and> new_events w (snd (objective lib EPOCHS t w)) =
           MakeDirectory dir # evs @
           (if fst r then []
            else LoadModel dir #
              (case disk (world (snd r)) dir of
                 None \<Rightarrow> []
               | Some c \<Rightarrow>
                   DendrogramPurity (LT_dendrogram_purity lib (ckpt_model c)) #
                   (if 1 \<le> EPOCHS
                    then [Writer dir (AddScalars ''val''
                            [(''Dendrogram Purity'', LT_dendrogram_purity lib (ckpt_model c))]
                            (EPOCHS - 1)),
                          Writer dir (ExportScalarsToJson default_logfile),
                          Writer dir WriterClose]
                    else [])))"
proof -
  let ?mon = "MonitorTree_init flag dir"
  let ?ini = "tune_init lib (TREE_DEPTH t) flag (emit (MakeDirectory dir) w)"
  have ini: "world ?ini = emit (MakeDirectory dir) w" "best_val_loss ?ini = PosInf"
    "model ?ini = LTRegressor lib (TREE_DEPTH t) flag"
    "optimizer ?ini = QHAdam lib (LTRegressor lib (TREE_DEPTH t) flag)"
    "loop_e ?ini = None"
    by (simp_all add: tune_init_def Let_def)
  have mon: "writer ?mon = dir" by (simp add: MonitorTree_init_def)
  have r: "tune_epochs lib (tune_state (REG t)) dir ?mon (REG t) (range_py EPOCHS) ?ini
             = (fst r, snd r)"
    by (simp add: r_def dir_def flag_def)
  from tune_epochs_world [OF r]
  obtain evs where evs:
    "run_ok dir (tune_state (REG t)) ''val_mse'' (world ?ini) (world (snd r)) evs"
    "fst r = list_ex is_nan_eval evs"
    "fst r \<longrightarrow> (\<exists>pre e lr. \<not> list_ex is_nan_eval pre \<and> evs = pre @
             [TrainStochastic e, Evaluate e NaN, LrSchedulerStep NaN,
              Writer (writer ?mon) (AddScalars ''train'' [(''lr'', lr)] e),
              Writer (writer ?mon) (ExportScalarsToJson default_logfile),
              Writer (writer ?mon) WriterClose])"
    "best_val_loss ?ini = PosInf \<and> range_py EPOCHS \<noteq> [] \<and>
            (\<not> fst r \<or>
             evaluate lib (hd (range_py EPOCHS))
               (fst (train_stochastic lib (REG t) (hd (range_py EPOCHS))
                       (model ?ini, optimizer ?ini))) \<noteq> NaN)
            \<longrightarrow> list_ex is_save evs"
    "\<not> fst r \<longrightarrow> loop_e (snd r) =
        (if range_py EPOCHS = [] then loop_e ?ini else Some (last (range_py EPOCHS)))"
    by blast
  have tr: "trace (world (snd r)) = trace w @ MakeDirectory dir # evs"
    using evs(1) by (simp add: run_ok_def ini)
  have a: "run_ok dir (tune_state (REG t)) ''val_mse'' (emit (MakeDirectory dir) w)
             (world (snd r)) evs"
    using evs(1) by (simp add: ini)
  have c: "fst r \<longrightarrow> (\<exists>pre e lr. \<not> list_ex is_nan_eval pre \<and> evs = pre @
             [TrainStochastic e, Evaluate e NaN, LrSchedulerStep NaN,
              Writer dir (AddScalars ''train'' [(''lr'', lr)] e),
              Writer dir (ExportScalarsToJson default_logfile),
              Writer dir WriterClose])"
    using evs(3) by (simp add: mon)
  have d: "1 \<le> EPOCHS \<and>
            (\<not> fst r \<or>
             evaluate lib 0 (fst (train_stochastic lib (REG t) 0
                (LTRegressor lib (TREE_DEPTH t) flag,
                 QHAdam lib (LTRegressor lib (TREE_DEPTH t) flag)))) \<noteq> NaN)
            \<longrightarrow> list_ex is_save evs"
    using evs(4) by (auto simp: range_py_Cons ini)
  have le: "\<not> fst r \<Longrightarrow> loop_e (snd r) = (if 1 \<le> EPOCHS then Some (EPOCHS - 1) else None)"
  proof (cases "1 \<le> EPOCHS")
    case True
    assume "\<not> fst r"
    with evs(5) True show ?thesis by (simp add: range_py_Cons last_range_py [symmetric])
  next
    case False
    assume "\<not> fst r"
    with evs(5) False show ?thesis by (simp add: range_py_def ini)
  qed
  have obj: "objective lib EPOCHS t w =
      (if fst r then (Inl TrialPruned, world (snd r))
       else
         (case disk (world (snd r)) dir of
            None \<Rightarrow> (Inl MissingCheckpoint, emit (LoadModel dir) (world (snd r)))
          | Some c \<Rightarrow>
              (let score = LT_dendrogram_purity lib (ckpt_model c);
                   w1 = emit (DendrogramPurity score) (emit (LoadModel dir) (world (snd r)))
               in case loop_e (snd r) of
                    None \<Rightarrow> (Inl NameError, w1)
                  | Some e \<Rightarrow>
                      (Inr score,
                       MonitorTree_close ?mon default_logfile
                         (MonitorTree_write lib ?mon (ckpt_model c) e False
                            [(''val'', [(''Dendrogram Purity'', score)])] w1)))))"
    by (simp add: objective_def Let_def load_model_def r_def dir_def flag_def split_def
        split: option.splits)
  have e: "disk (snd (objective lib EPOCHS t w)) = disk (world (snd r))"
    by (simp add: obj Let_def split: option.splits)
  have f: "fst (objective lib EPOCHS t w) =
           (if fst r then Inl TrialPruned
            else case disk (world (snd r)) dir of
                   None \<Rightarrow> Inl MissingCheckpoint
                 | Some c \<Rightarrow> if 1 \<le> EPOCHS then Inr (LT_dendrogram_purity lib (ckpt_model c))
                             else Inl NameError)"
    using le by (simp add: obj Let_def split: option.splits)
  have g: "new_events w (snd (objective lib EPOCHS t w)) =
           MakeDirectory dir # evs @
           (if fst r then []
            else LoadModel dir #
              (case disk (world (snd r)) dir of
                 None \<Rightarrow> []
               | Some c \<Rightarrow>
                   DendrogramPurity (LT_dendrogram_purity lib (ckpt_model c)) #
                   (if 1 \<le> EPOCHS
                    then [Writer dir (AddScalars ''val''
                            [(''Dendrogram Purity'', LT_dendrogram_purity lib (ckpt_model c))]
                            (EPOCHS - 1)),
                          Writer dir (ExportScalarsToJson default_logfile),
                          Writer dir WriterClose]
                    else [])))"
    using le tr
    by (simp add: obj Let_def new_events_def trace_MonitorTree_write mon split: option.splits)
  from a evs(2) c d e f g show ?thesis by blast
qed

lemma py_int_error: "py_int n a = Inl err \<Longrightarrow> err = ValueError"
  by (auto simp: py_int_def Let_def split_def split: option.splits if_splits)

subsection \<open>Reading an integer\<close>

lemma is_digit_cases:
  "is_digit c = (c = CHR ''0'' \<or> c = CHR ''1'' \<or> c = CHR ''2'' \<or> c = CHR ''3'' \<or> c = CHR ''4'' \<or>
                 c = CHR ''5'' \<or> c = CHR ''6'' \<or> c = CHR ''7'' \<or> c = CHR ''8'' \<or> c = CHR ''9'')"
  by (auto simp: is_digit_def)

lemma digit_of_is_digit:
  "digit_of c = (if is_digit c then Some (of_char c - 48) else None)"
  by (auto simp: digit_of_def is_digit_cases)

lemma is_digit_plain:
  "is_digit c \<Longrightarrow> c \<noteq> CHR ''_'' \<and> c \<noteq> CHR ''+'' \<and> c \<noteq> CHR ''-'' \<and> \<not> py_isspace c"
  by (auto simp: is_digit_cases py_isspace_def)

lemma more_digits_digits:
  "list_all is_digit ds \<Longrightarrow>
   more_digits acc (ds @ rest) =
     more_digits (foldl (\<lambda>a c. 10 * a + (of_char c - 48)) acc ds) rest"
proof (induction ds arbitrary: acc)
  case Nil
  then show ?case by simp
next
  case (Cons d ds)
  then have d: "is_digit d" and ds: "list_all is_digit ds" by simp_all
  from d have "d \<noteq> CHR ''_''" by (simp add: is_digit_plain)
  with d Cons.IH [OF ds] show ?case by (simp add: digit_of_is_digit)
qed

lemma more_digits_groups:
  "list_all (\<lambda>g. g \<noteq> [] \<and> list_all is_digit g) gs \<Longrightarrow>
   more_digits acc (concat (map (\<lambda>h. CHR ''_'' # h) gs)) =
     Some (foldl (\<lambda>a c. 10 * a + (of_char c - 48)) acc (concat gs))"
proof (induction gs arbitrary: acc)
  case Nil
  then show ?case by simp
next
  case (Cons g gs)
  then obtain d ds where g: "g = d # ds" and d: "is_digit d" and ds: "list_all is_digit ds"
    and gs: "list_all (\<lambda>g. g \<noteq> [] \<and> list_all is_digit g) gs"
    by (cases g) auto
  show ?case
    using d by (simp add: g digit_of_is_digit more_digits_digits [OF ds] Cons.IH [OF gs])
qed

lemma unsigned_int_join:
  assumes "gs \<noteq> []" and "list_all (\<lambda>g. g \<noteq> [] \<and> list_all is_digit g) gs"
  shows "unsigned_int (join_groups gs) = Some (decimal_value (concat gs))"
proof -
  from assms obtain d ds rest where gs: "gs = (d # ds) # rest" and d: "is_digit d"
    and ds: "list_all is_digit ds"
    and rest: "list_all (\<lambda>g. g \<noteq> [] \<and> list_all is_digit g) rest"
    by (cases gs; cases "hd gs") auto
  show ?thesis
    using d
    by (simp add: gs join_groups_def unsigned_int_def digit_of_is_digit decimal_value_def
        more_digits_digits [OF ds] more_digits_groups [OF rest])
qed

lemma join_groups_ends:
  assumes "gs \<noteq> []" and "list_all (\<lambda>g. g \<noteq> [] \<and> list_all is_digit g) gs"
  shows "join_groups gs \<noteq> [] \<and> is_digit (hd (join_groups gs)) \<and> is_digit (last (join_groups gs))
         \<and> filter (\<lambda>c. c \<noteq> CHR ''_'') (join_groups gs) = concat gs"
proof -
  have all: "list_all is_digit g \<Longrightarrow> filter (\<lambda>c. c \<noteq> CHR ''_'') g = g" for g
    by (induction g) (auto simp: is_digit_plain)
  have tail: "list_all (\<lambda>g. g \<noteq> [] \<and> list_all is_digit g) rest \<Longrightarrow>
      filter (\<lambda>c. c \<noteq> CHR ''_'') (concat (map (\<lambda>h. CHR ''_'' # h) rest)) = concat rest \<and>
      (rest \<noteq> [] \<longrightarrow> concat (map (\<lambda>h. CHR ''_'' # h) rest) \<noteq> [] \<and>
         is_digit (last (concat (map (\<lambda>h. CHR ''_'' # h) rest))))" for rest
  proof (induction rest)
    case Nil
    then show ?case by simp
  next
    case (Cons g rest)
    then have g: "g \<noteq> []" "list_all is_digit g" by simp_all
    then have "is_digit (last g)" by (simp add: list_all_iff)
    with Cons g show ?case by (cases "rest = []") (auto simp: all last_append)
  qed
  from assms obtain g rest where gs: "gs = g # rest" and g: "g \<noteq> []" "list_all is_digit g"
    and rest: "list_all (\<lambda>g. g \<noteq> [] \<and> list_all is_digit g) rest"
    by (cases gs) auto
  from g have hd: "is_digit (hd g)" "is_digit (last g)" by (simp_all add: list_all_iff)
  show ?thesis
    using g hd tail [OF rest] by (cases "rest = []") (auto simp: gs join_groups_def all)
qed

lemma strip_sandwich:
  assumes "list_all py_isspace ws1" and "list_all py_isspace ws2" and "t \<noteq> []"
    and "\<not> py_isspace (hd t)" and "\<not> py_isspace (last t)"
  shows "strip (ws1 @ t @ ws2) = t"
proof -
  have a: "dropWhile py_isspace (ws1 @ t @ ws2) = t @ ws2"
    using assms(1,3,4) by (cases t) (simp_all add: dropWhile_append2 list_all_iff)
  have "dropWhile py_isspace (rev ws2 @ rev t) = dropWhile py_isspace (rev t)"
    by (rule dropWhile_append2) (use assms(2) in \<open>simp add: list_all_iff\<close>)
  then have "dropWhile py_isspace (rev (t @ ws2)) = dropWhile py_isspace (rev t)"
    by simp
  also have "\<dots> = rev t"
    using assms(3,5) by (cases t rule: rev_cases) simp_all
  finally show ?thesis by (simp add: strip_def a)
qed

lemma strip_decomp:
  "\<exists>ws1 ws2. s = ws1 @ strip s @ ws2 \<and> list_all py_isspace ws1 \<and> list_all py_isspace ws2"
proof -
  let ?r = "dropWhile py_isspace s"
  have 1: "s = takeWhile py_isspace s @ ?r" by simp
  have "?r = rev (dropWhile py_isspace (rev ?r)) @ rev (takeWhile py_isspace (rev ?r))"
    by (metis rev_append rev_rev_ident takeWhile_dropWhile_id)
  then have 2: "?r = strip s @ rev (takeWhile py_isspace (rev ?r))"
    by (simp add: strip_def)
  have "s = takeWhile py_isspace s @ strip s @ rev (takeWhile py_isspace (rev ?r))"
    using 1 2 by metis
  moreover have "list_all py_isspace (takeWhile py_isspace s)"
    "list_all py_isspace (rev (takeWhile py_isspace (rev ?r)))"
    by (auto simp: list_all_iff dest: set_takeWhileD)
  ultimately show ?thesis by blast
qed

lemma more_digits_decomp:
  "more_digits acc cs = Some n \<Longrightarrow>
   \<exists>ds gs. cs = ds @ concat (map (\<lambda>h. CHR ''_'' # h) gs) \<and> list_all is_digit ds \<and>
           list_all (\<lambda>g. g \<noteq> [] \<and> list_all is_digit g) gs"
proof (induction acc cs arbitrary: n rule: more_digits.induct)
  case (1 acc)
  have "[] = [] @ concat (map (\<lambda>h. CHR ''_'' # h) ([] :: string list))" by simp
  then show ?case by (intro exI [of _ "[]"]) simp
next
  case (2 acc c cs)
  show ?case
  proof (cases "c = CHR ''_''")
    case True
    with "2.prems" obtain d ds' where cs: "cs = d # ds'" and d: "is_digit d"
      and rec: "more_digits (10 * acc + (of_char d - 48)) ds' = Some n"
      by (cases cs) (auto simp: digit_of_is_digit split: if_splits)
    from d have dk: "digit_of d = Some (of_char d - 48)" by (simp add: digit_of_is_digit)
    from "2.IH"(1) [OF True cs dk rec]
    obtain ds gs where 3: "ds' = ds @ concat (map (\<lambda>h. CHR ''_'' # h) gs)"
      "list_all is_digit ds" "list_all (\<lambda>g. g \<noteq> [] \<and> list_all is_digit g) gs"
      by blast
    have "c # cs = [] @ concat (map (\<lambda>h. CHR ''_'' # h) ((d # ds) # gs))"
      using True cs 3(1) by simp
    moreover have "list_all (\<lambda>g. g \<noteq> [] \<and> list_all is_digit g) ((d # ds) # gs)"
      using d 3 by simp
    ultimately show ?thesis by (intro exI [of _ "[]"] exI [of _ "(d # ds) # gs"]) simp
  next
    case False
    with "2.prems" have c: "is_digit c"
      and rec: "more_digits (10 * acc + (of_char c - 48)) cs = Some n"
      by (auto simp: digit_of_is_digit split: if_splits)
    from c have ck: "digit_of c = Some (of_char c - 48)" by (simp add: digit_of_is_digit)
    from "2.IH"(2) [OF False ck rec]
    obtain ds gs where 3: "cs = ds @ concat (map (\<lambda>h. CHR ''_'' # h) gs)"
      "list_all is_digit ds" "list_all (\<lambda>g. g \<noteq> [] \<and> list_all is_digit g) gs"
      by blast
    have "c # cs = (c # ds) @ concat (map (\<lambda>h. CHR ''_'' # h) gs)"
      using 3(1) by simp
    moreover have "list_all is_digit (c # ds)" using c 3 by simp
    ultimately show ?thesis using 3(3) by blast
  qed
qed

lemma unsigned_int_decomp:
  assumes "unsigned_int u = Some n"
  shows "\<exists>gs. u = join_groups gs \<and> gs \<noteq> [] \<and> list_all (\<lambda>g. g \<noteq> [] \<and> list_all is_digit g) gs"
proof -
  from assms obtain c cs where u: "u = c # cs" and c: "is_digit c"
    and rec: "more_digits (of_char c - 48) cs = Some n"
    by (cases u) (auto simp: unsigned_int_def digit_of_is_digit split: if_splits)
  from more_digits_decomp [OF rec]
  obtain ds gs where 3: "cs = ds @ concat (map (\<lambda>h. CHR ''_'' # h) gs)"
    "list_all is_digit ds" "list_all (\<lambda>g. g \<noteq> [] \<and> list_all is_digit g) gs"
    by blast
  have "u = join_groups ((c # ds) # gs)" using u 3(1) by (simp add: join_groups_def)
  moreover have "list_all (\<lambda>g. g \<noteq> [] \<and> list_all is_digit g) ((c # ds) # gs)"
    using c 3 by simp
  ultimately show ?thesis by blast
qed

lemma py_int_literal:
  assumes lit: "int_literal ws1 sg gs ws2"
  shows "py_int max_str_digits (ws1 @ sg @ join_groups gs @ ws2) =
     (if 640 < length (concat gs) \<and> 0 < max_str_digits \<and> max_str_digits < length (concat gs)
      then Inl ValueError
      else Inr (if sg = ''-'' then - int (decimal_value (concat gs))
                else int (decimal_value (concat gs))))"
proof -
  from lit have ws: "list_all py_isspace ws1" "list_all py_isspace ws2"
    and sg: "sg = [] \<or> sg = ''+'' \<or> sg = ''-''"
    and gs: "gs \<noteq> []" "list_all (\<lambda>g. g \<noteq> [] \<and> list_all is_digit g) gs"
    by (simp_all add: int_literal_def)
  note ends = join_groups_ends [OF gs]
  let ?body = "join_groups gs"
  let ?t = "sg @ ?body"
  obtain c cs where body: "?body = c # cs" and c: "is_digit c"
    using ends by (cases ?body) auto
  have nb: "\<not> py_isspace (hd ?body)" "\<not> py_isspace (last ?body)"
    using ends is_digit_plain by blast+
  have t: "?t \<noteq> []" "\<not> py_isspace (hd ?t)" "\<not> py_isspace (last ?t)"
    using sg ends nb by (auto simp: py_isspace_def)
  have strip: "strip (ws1 @ sg @ ?body @ ws2) = ?t"
    using strip_sandwich [OF ws t] by simp
  have ex: "digits_exceed max_str_digits ?body =
      (640 < length (concat gs) \<and> 0 < max_str_digits \<and> max_str_digits < length (concat gs))"
    using ends by (simp add: digits_exceed_def Let_def)
  have cne: "c \<noteq> CHR ''-''" "c \<noteq> CHR ''+''" using c by (simp_all add: is_digit_plain)
  from sg show ?thesis
  proof (elim disjE)
    assume sgn: "sg = []"
    have s1: "strip (ws1 @ c # cs @ ws2) = c # cs"
      using strip sgn by (simp add: body)
    have u1: "unsigned_int (c # cs) = Some (decimal_value (concat gs))"
      using unsigned_int_join [OF gs] by (simp add: body)
    have e1: "digits_exceed max_str_digits (c # cs) =
        (640 < length (concat gs) \<and> 0 < max_str_digits \<and> max_str_digits < length (concat gs))"
      using ex by (simp add: body)
    show ?thesis
      using cne by (simp add: sgn body py_int_def Let_def s1 u1 e1)
  next
    assume "sg = ''+''"
    then show ?thesis
      using unsigned_int_join [OF gs] ex strip
      by (simp add: py_int_def Let_def)
  next
    assume "sg = ''-''"
    then show ?thesis
      using unsigned_int_join [OF gs] ex strip
      by (simp add: py_int_def Let_def)
  qed
qed

lemma py_int_accepts:
  assumes "py_int max_str_digits s = Inr n"
  shows "\<exists>ws1 sg gs ws2. s = ws1 @ sg @ join_groups gs @ ws2 \<and> int_literal ws1 sg gs ws2"
proof -
  obtain ws1 ws2 where s: "s = ws1 @ strip s @ ws2"
    and ws: "list_all py_isspace ws1" "list_all py_isspace ws2"
    using strip_decomp [of s] by blast
  let ?t = "strip s"
  have "\<exists>sg u k. ?t = sg @ u \<and> (sg = [] \<or> sg = ''+'' \<or> sg = ''-'') \<and> unsigned_int u = Some k"
  proof (cases ?t)
    case Nil
    with assms show ?thesis by (simp add: py_int_def Let_def unsigned_int_def)
  next
    case (Cons c r)
    show ?thesis
    proof (cases "c = CHR ''-''")
      case True
      with assms Cons obtain k where "unsigned_int r = Some k"
        by (auto simp: py_int_def Let_def split: option.splits)
      with True Cons show ?thesis by (intro exI [of _ "''-''"] exI [of _ r]) simp
    next
      case False
      show ?thesis
      proof (cases "c = CHR ''+''")
        case True
        with assms Cons obtain k where "unsigned_int r = Some k"
          by (auto simp: py_int_def Let_def split: option.splits)
        with True Cons show ?thesis by (intro exI [of _ "''+''"] exI [of _ r]) simp
      next
        case plus: False
        with False assms Cons obtain k where "unsigned_int ?t = Some k"
          by (auto simp: py_int_def Let_def split: option.splits)
        then show ?thesis by (intro exI [of _ "[]"] exI [of _ ?t]) simp
      qed
    qed
  qed
  then obtain sg u k where t: "?t = sg @ u" "sg = [] \<or> sg = ''+'' \<or> sg = ''-''"
    "unsigned_int u = Some k" by blast
  from unsigned_int_decomp [OF t(3)]
  obtain gs where gs: "u = join_groups gs" "gs \<noteq> []"
    "list_all (\<lambda>g. g \<noteq> [] \<and> list_all is_digit g) gs" by blast
  have "s = ws1 @ sg @ join_groups gs @ ws2" using s t(1) gs(1) by simp
  moreover have "int_literal ws1 sg gs ws2" using ws t(2) gs by (simp add: int_literal_def)
  ultimately show ?thesis by blast
qed

subsection \<open>The policy along a run\<close>

lemma policy_append:
  "policy dir st key (xs @ ys) r = policy dir st key ys (policy dir st key xs r)"
  by (induction xs arbitrary: r) simp_all

lemma trained_append: "trained (xs @ ys) = trained xs @ trained ys"
  by (induction xs rule: trained.induct) simp_all

lemma last_save_append:
  "last_save (xs @ ys) = (case last_save ys of Some x \<Rightarrow> Some x | None \<Rightarrow> last_save xs)"
  by (induction xs) (auto split: option.splits event.splits)

lemma dntn_epoch_policy:
  assumes ep: "dntn_epoch lib st dir E e s = (brk, s')"
  shows "\<exists>evs. trace (world s') = trace (world s) @ evs
       \<and> policy dir st ''valid_ER'' evs (Some (best_val_loss s, best_e s, None)) =
           Some (best_val_loss s', best_e s', None)
       \<and> trained evs = [e]"
proof -
  obtain m opt where tr: "train_stochastic lib (Finite 0) e (model s, optimizer s) = (m, opt)"
    by (cases "train_stochastic lib (Finite 0) e (model s, optimizer s)")
  show ?thesis
    using ep by (cases "float_le (evaluate lib e m) (best_val_loss s)")
      (auto simp: dntn_epoch_eq [OF tr refl])
qed

lemma tune_epoch_policy:
  assumes ep: "tune_epoch lib st dir mon reg e s = (pruned, s')"
  shows "\<exists>evs. trace (world s') = trace (world s) @ evs
       \<and> policy dir st ''val_mse'' evs (Some (best_val_loss s, best_e s, None)) =
           Some (best_val_loss s', best_e s', None)
       \<and> trained evs = [e]"
proof -
  obtain m opt where tr: "train_stochastic lib reg e (model s, optimizer s) = (m, opt)"
    by (cases "train_stochastic lib reg e (model s, optimizer s)")
  show ?thesis
    using ep by (cases "float_le (evaluate lib e m) (best_val_loss s)")
      (auto simp: tune_epoch_eq [OF tr refl] Let_def trace_MonitorTree_write)
qed

lemma dntn_epochs_policy:
  "\<exists>evs. trace (world (dntn_epochs lib st dir E es s)) = trace (world s) @ evs
       \<and> policy dir st ''valid_ER'' evs (Some (best_val_loss s, best_e s, None)) =
           Some (best_val_loss (dntn_epochs lib st dir E es s),
                 best_e (dntn_epochs lib st dir E es s), None)
       \<and> trained evs = take (length (trained evs)) es
       \<and> (es \<noteq> [] \<longrightarrow> trained evs \<noteq> [])"
proof (induction es arbitrary: s)
  case Nil
  show ?case by (intro exI [of _ "[]"]) simp
next
  case (Cons e es)
  obtain brk s1 where ep: "dntn_epoch lib st dir E e s = (brk, s1)"
    by (cases "dntn_epoch lib st dir E e s")
  from dntn_epoch_policy [OF ep]
  obtain evs1 where 1: "trace (world s1) = trace (world s) @ evs1"
    "policy dir st ''valid_ER'' evs1 (Some (best_val_loss s, best_e s, None)) =
       Some (best_val_loss s1, best_e s1, None)"
    "trained evs1 = [e]"
    by blast
  show ?case
  proof (cases brk)
    case True
    with ep have "dntn_epochs lib st dir E (e # es) s = s1" by simp
    with 1 show ?thesis by (intro exI [of _ evs1]) simp
  next
    case False
    with ep have eq: "dntn_epochs lib st dir E (e # es) s = dntn_epochs lib st dir E es s1"
      by simp
    from Cons.IH [of s1]
    obtain evs2 where 2:
      "trace (world (dntn_epochs lib st dir E es s1)) = trace (world s1) @ evs2"
      "policy dir st ''valid_ER'' evs2 (Some (best_val_loss s1, best_e s1, None)) =
         Some (best_val_loss (dntn_epochs lib st dir E es s1),
               best_e (dntn_epochs lib st dir E es s1), None)"
      "trained evs2 = take (length (trained evs2)) es"
      by blast
    have "trained (evs1 @ evs2) = take (length (trained (evs1 @ evs2))) (e # es)"
      using 1(3) 2(3) by (simp add: trained_append)
    with 1 2 show ?thesis
      unfolding eq by (intro exI [of _ "evs1 @ evs2"]) (simp add: policy_append trained_append)
  qed
qed

lemma tune_epochs_policy:
  assumes "tune_epochs lib st dir mon reg es s = (pruned, s')"
  shows "\<exists>evs. trace (world s') = trace (world s) @ evs
       \<and> policy dir st ''val_mse'' evs (Some (best_val_loss s, best_e s, None)) =
           Some (best_val_loss s', best_e s', None)
       \<and> trained evs = take (length (trained evs)) es
       \<and> (es \<noteq> [] \<longrightarrow> trained evs \<noteq> [])
       \<and> (\<not> pruned \<longrightarrow> trained evs = es)"
  using assms
proof (induction es arbitrary: s)
  case Nil
  then have "s' = s" "\<not> pruned" by simp_all
  then show ?case by (intro exI [of _ "[]"]) simp
next
  case (Cons e es)
  obtain p1 s1 where ep: "tune_epoch lib st dir mon reg e s = (p1, s1)"
    by (cases "tune_epoch lib st dir mon reg e s")
  from tune_epoch_policy [OF ep]
  obtain evs1 where 1: "trace (world s1) = trace (world s) @ evs1"
    "policy dir st ''val_mse'' evs1 (Some (best_val_loss s, best_e s, None)) =
       Some (best_val_loss s1, best_e s1, None)"
    "trained evs1 = [e]"
    by blast
  show ?case
  proof (cases p1)
    case True
    with Cons.prems ep have "s' = s1" "pruned" by simp_all
    with 1 show ?thesis by (intro exI [of _ evs1]) simp
  next
    case False
    with Cons.prems ep have rest: "tune_epochs lib st dir mon reg es s1 = (pruned, s')" by simp
    from Cons.IH [OF rest]
    obtain evs2 where 2: "trace (world s') = trace (world s1) @ evs2"
      "policy dir st ''val_mse'' evs2 (Some (best_val_loss s1, best_e s1, None)) =
         Some (best_val_loss s', best_e s', None)"
      "trained evs2 = take (length (trained evs2)) es"
      "\<not> pruned \<longrightarrow> trained evs2 = es"
      by blast
    have "trained (evs1 @ evs2) = take (length (trained (evs1 @ evs2))) (e # es)"
      using 1(3) 2(3) by (simp add: trained_append)
    with 1 2 show ?thesis
      by (intro exI [of _ "evs1 @ evs2"]) (simp add: policy_append trained_append)
  qed
qed

lemma dntn_seed_policy:
  fixes lib :: "('m, 'o) library" and D :: string and SEED EPOCHS :: int
    and w :: "('m, 'o) world"
  defines "dir \<equiv> DntnSaveDir D SEED"
  defines "fin \<equiv> dntn_epochs lib (dntn_state D SEED) (DntnSaveDir D SEED) EPOCHS (range_py EPOCHS)
                 (dntn_init lib SEED (emit (MakeDirectory (DntnSaveDir D SEED)) w))"
  defines "evs \<equiv> new_events w (snd (dntn_seed lib EPOCHS D SEED w))"
  shows "policy dir (dntn_state D SEED) ''valid_ER'' evs (Some (PosInf, - 1, None)) =
           Some (best_val_loss fin, best_e fin, None)
       \<and> trained evs = take (length (trained evs)) (range_py EPOCHS)
       \<and> (1 \<le> EPOCHS \<longrightarrow> trained evs \<noteq> [])
       \<and> disk (snd (dntn_seed lib EPOCHS D SEED w)) dir =
           (case last_save evs of None \<Rightarrow> disk w dir | Some (p, c) \<Rightarrow> Some c)"
proof -
  let ?ini = "dntn_init lib SEED (emit (MakeDirectory dir) w)"
  have ini: "world ?ini = emit (MakeDirectory dir) w" "best_val_loss ?ini = PosInf"
    "best_e ?ini = - 1"
    by (simp_all add: dntn_init_def Let_def)
  from dntn_seed_run [where lib = lib and D = D and SEED = SEED and EPOCHS = EPOCHS and w = w]
  obtain evs0 where evs0:
    "run_ok dir (dntn_state D SEED) ''valid_ER'' (emit (MakeDirectory dir) w) (world fin) evs0"
    "disk (snd (dntn_seed lib EPOCHS D SEED w)) = disk (world fin)"
    "evs = MakeDirectory dir # evs0 @ LoadModel dir #
       (case disk (world fin) dir of
          None \<Rightarrow> []
        | Some c \<Rightarrow> [EvaluateTest (evaluate_test lib (ckpt_model c))])"
    unfolding dir_def fin_def evs_def by blast
  from dntn_epochs_policy [of lib "dntn_state D SEED" dir EPOCHS "range_py EPOCHS" ?ini]
  obtain evs1 where evs1: "trace (world fin) = trace (world ?ini) @ evs1"
    "policy dir (dntn_state D SEED) ''valid_ER'' evs1
       (Some (best_val_loss ?ini, best_e ?ini, None)) =
       Some (best_val_loss fin, best_e fin, None)"
    "trained evs1 = take (length (trained evs1)) (range_py EPOCHS)"
    "range_py EPOCHS \<noteq> [] \<longrightarrow> trained evs1 \<noteq> []"
    unfolding dir_def fin_def by blast
  have same: "evs1 = evs0"
    using evs0(1) evs1(1) by (simp add: run_ok_def ini)
  have a: "policy dir (dntn_state D SEED) ''valid_ER'' evs (Some (PosInf, - 1, None)) =
           Some (best_val_loss fin, best_e fin, None)"
    using evs1(2)
    by (simp add: evs0(3) same ini policy_append split: option.splits)
  have tr: "trained evs = trained evs0"
    by (simp add: evs0(3) trained_append split: option.splits)
  have b: "trained evs = take (length (trained evs)) (range_py EPOCHS)"
    using evs1(3) by (simp add: tr same)
  have c: "1 \<le> EPOCHS \<longrightarrow> trained evs \<noteq> []"
    using evs1(4) by (auto simp: tr same range_py_Cons)
  have ls: "last_save evs = last_save evs0"
    by (simp add: evs0(3) last_save_append split: option.splits)
  have d: "disk (snd (dntn_seed lib EPOCHS D SEED w)) dir =
           (case last_save evs of None \<Rightarrow> disk w dir | Some (p, c) \<Rightarrow> Some c)"
    using run_ok_last_save [OF evs0(1)]
    by (auto simp: ls evs0(2) split: option.splits)
  from a b c d show ?thesis by blast
qed

lemma objective_policy:
  fixes lib :: "('m, 'o) library" and t :: trial and EPOCHS :: int and w :: "('m, 'o) world"
  defines "dir \<equiv> TuneSaveDir (TREE_DEPTH t) (REG t)"
  defines "r \<equiv> tune_epochs lib (tune_state (REG t)) (TuneSaveDir (TREE_DEPTH t) (REG t))
                 (MonitorTree_init (float_lt (Finite 0) (REG t))
                    (TuneSaveDir (TREE_DEPTH t) (REG t)))
                 (REG t) (range_py EPOCHS)
                 (tune_init lib (TREE_DEPTH t) (float_lt (Finite 0) (REG t))
                    (emit (MakeDirectory (TuneSaveDir (TREE_DEPTH t) (REG t))) w))"
  defines "evs \<equiv> new_events w (snd (objective lib EPOCHS t w))"
  shows "policy dir (tune_state (REG t)) ''val_mse'' evs (Some (PosInf, - 1, None)) =
           Some (best_val_loss (snd r), best_e (snd r), None)
       \<and> trained evs = take (length (trained evs)) (range_py EPOCHS)
       \<and> (1 \<le> EPOCHS \<longrightarrow> trained evs \<noteq> [])
       \<and> (fst (objective lib EPOCHS t w) \<noteq> Inl TrialPruned \<longrightarrow> trained evs = range_py EPOCHS)
       \<and> disk (snd (objective lib EPOCHS t w)) dir =
           (case last_save evs of None \<Rightarrow> disk w dir | Some (p, c) \<Rightarrow> Some c)"
proof -
  let ?flag = "float_lt (Finite 0) (REG t)"
  let ?mon = "MonitorTree_init ?flag dir"
  let ?ini = "tune_init lib (TREE_DEPTH t) ?flag (emit (MakeDirectory dir) w)"
  have ini: "world ?ini = emit (MakeDirectory dir) w" "best_val_loss ?ini = PosInf"
    "best_e ?ini = - 1"
    by (simp_all add: tune_init_def Let_def)
  from objective_run [where lib = lib and t = t and EPOCHS = EPOCHS and w = w]
  obtain evs0 where evs0:
    "run_ok dir (tune_state (REG t)) ''val_mse'' (emit (MakeDirectory dir) w)
       (world (snd r)) evs0"
    "disk (snd (objective lib EPOCHS t w)) = disk (world (snd r))"
    "fst (objective lib EPOCHS t w) =
           (if fst r then Inl TrialPruned
            else case disk (world (snd r)) dir of
                   None \<Rightarrow> Inl MissingCheckpoint
                 | Some c \<Rightarrow> if 1 \<le> EPOCHS then Inr (LT_dendrogram_purity lib (ckpt_model c))
                             else Inl NameError)"
    "evs = MakeDirectory dir # evs0 @
           (if fst r then []
            else LoadModel dir #
              (case disk (world (snd r)) dir of
                 None \<Rightarrow> []
               | Some c \<Rightarrow>
                   DendrogramPurity (LT_dendrogram_purity lib (ckpt_model c)) #
                   (if 1 \<le> EPOCHS
                    then [Writer dir (AddScalars ''val''
                            [(''Dendrogram Purity'', LT_dendrogram_purity lib (ckpt_model c))]
                            (EPOCHS - 1)),
                          Writer dir (ExportScalarsToJson default_logfile),
                          Writer dir WriterClose]
                    else [])))"
    unfolding dir_def r_def evs_def by blast
  have r: "tune_epochs lib (tune_state (REG t)) dir ?mon (REG t) (range_py EPOCHS) ?ini
             = (fst r, snd r)"
    by (simp add: r_def dir_def)
  from tune_epochs_policy [OF r]
  obtain evs1 where evs1: "trace (world (snd r)) = trace (world ?ini) @ evs1"
    "policy dir (tune_state (REG t)) ''val_mse'' evs1
       (Some (best_val_loss ?ini, best_e ?ini, None)) =
       Some (best_val_loss (snd r), best_e (snd r), None)"
    "trained evs1 = take (length (trained evs1)) (range_py EPOCHS)"
    "range_py EPOCHS \<noteq> [] \<longrightarrow> trained evs1 \<noteq> []"
    "\<not> fst r \<longrightarrow> trained evs1 = range_py EPOCHS"
    by blast
  have same: "evs1 = evs0"
    using evs0(1) evs1(1) by (simp add: run_ok_def ini)
  have a: "policy dir (tune_state (REG t)) ''val_mse'' evs (Some (PosInf, - 1, None)) =
           Some (best_val_loss (snd r), best_e (snd r), None)"
    using evs1(2)
    by (simp add: evs0(4) same ini policy_append split: option.splits)
  have tr: "trained evs = trained evs0"
    by (simp add: evs0(4) trained_append split: option.splits)
  have b: "trained evs = take (length (trained evs)) (range_py EPOCHS)"
    using evs1(3) by (simp add: tr same)
  have c: "1 \<le> EPOCHS \<longrightarrow> trained evs \<noteq> []"
    using evs1(4) by (auto simp: tr same range_py_Cons)
  have c2: "fst (objective lib EPOCHS t w) \<noteq> Inl TrialPruned \<longrightarrow> trained evs = range_py EPOCHS"
    using evs1(5) by (auto simp: tr same evs0(3))
  have ls: "last_save evs = last_save evs0"
    by (simp add: evs0(4) last_save_append split: option.splits)
  have d: "disk (snd (objective lib EPOCHS t w)) dir =
           (case last_save evs of None \<Rightarrow> disk w dir | Some (p, c) \<Rightarrow> Some c)"
    using run_ok_last_save [OF evs0(1)]
    by (auto simp: ls evs0(2) split: option.splits)
  from a b c c2 d show ?thesis by blast
qed

lemma dntn_epoch_brk:
  "dntn_epoch lib st dir E e s = (brk, s') \<Longrightarrow> brk = (no_improv s' = E div 5)"
  by (auto simp: dntn_epoch_def Let_def split_def)

lemma dntn_epochs_extent:
  "\<exists>evs. trace (world (dntn_epochs lib st dir E es s)) = trace (world s) @ evs
       \<and> (trained evs = es \<or> no_improv (dntn_epochs lib st dir E es s) = E div 5)"
proof (induction es arbitrary: s)
  case Nil
  show ?case by (intro exI [of _ "[]"]) simp
next
  case (Cons e es)
  obtain brk s1 where ep: "dntn_epoch lib st dir E e s = (brk, s1)"
    by (cases "dntn_epoch lib st dir E e s")
  from dntn_epoch_policy [OF ep]
  obtain evs1 where 1: "trace (world s1) = trace (world s) @ evs1" "trained evs1 = [e]"
    by blast
  show ?case
  proof (cases brk)
    case True
    with ep have "dntn_epochs lib st dir E (e # es) s = s1" by simp
    moreover from dntn_epoch_brk [OF ep] True have "no_improv s1 = E div 5" by simp
    ultimately show ?thesis using 1 by (intro exI [of _ evs1]) simp
  next
    case False
    with ep have eq: "dntn_epochs lib st dir E (e # es) s = dntn_epochs lib st dir E es s1"
      by simp
    from Cons.IH [of s1]
    obtain evs2 where 2:
      "trace (world (dntn_epochs lib st dir E es s1)) = trace (world s1) @ evs2"
      "trained evs2 = es \<or> no_improv (dntn_epochs lib st dir E es s1) = E div 5"
      by blast
    from 1 2 show ?thesis
      unfolding eq by (intro exI [of _ "evs1 @ evs2"]) (auto simp: trained_append)
  qed
qed

lemma dntn_seed_extent:
  fixes lib :: "('m, 'o) library" and D :: string and SEED EPOCHS :: int
    and w :: "('m, 'o) world"
  defines "fin \<equiv> dntn_epochs lib (dntn_state D SEED) (DntnSaveDir D SEED) EPOCHS (range_py EPOCHS)
                 (dntn_init lib SEED (emit (MakeDirectory (DntnSaveDir D SEED)) w))"
  shows "trained (new_events w (snd (dntn_seed lib EPOCHS D SEED w))) = range_py EPOCHS \<or>
         no_improv fin = EPOCHS div 5"
proof -
  let ?dir = "DntnSaveDir D SEED"
  let ?ini = "dntn_init lib SEED (emit (MakeDirectory ?dir) w)"
  have ini: "world ?ini = emit (MakeDirectory ?dir) w"
    by (simp add: dntn_init_def Let_def)
  from dntn_seed_run [where lib = lib and D = D and SEED = SEED and EPOCHS = EPOCHS and w = w]
  obtain evs0 where evs0:
    "run_ok ?dir (dntn_state D SEED) ''valid_ER'' (emit (MakeDirectory ?dir) w) (world fin) evs0"
    "new_events w (snd (dntn_seed lib EPOCHS D SEED w)) =
       MakeDirectory ?dir # evs0 @ LoadModel ?dir #
       (case disk (world fin) ?dir of
          None \<Rightarrow> []
        | Some c \<Rightarrow> [EvaluateTest (evaluate_test lib (ckpt_model c))])"
    unfolding fin_def by blast
  from dntn_epochs_extent [of lib "dntn_state D SEED" ?dir EPOCHS "range_py EPOCHS" ?ini]
  obtain evs1 where evs1: "trace (world fin) = trace (world ?ini) @ evs1"
    "trained evs1 = range_py EPOCHS \<or> no_improv fin = EPOCHS div 5"
    unfolding fin_def by blast
  have same: "evs1 = evs0"
    using evs0(1) evs1(1) by (simp add: run_ok_def ini)
  have "trained (new_events w (snd (dntn_seed lib EPOCHS D SEED w))) = trained evs0"
    by (simp add: evs0(2) trained_append split: option.splits)
  with evs1(2) same show ?thesis by simp
qed

section \<open>The claims\<close>

text \<open>
  C1. Best-checkpoint policy. Both loops start with the running minimum at plus infinity.
  In an epoch whose validation metric is less than or equal to the running minimum, exactly
  one checkpoint is written: the model, the optimizer and the state record go to the save
  directory, the running minimum and the best epoch become this epoch's values, and in
  dntn.py the no-improvement counter is zero afterwards. In every other epoch no checkpoint
  is written, and the disk, the running minimum and the best epoch stay as they were.
  Along a whole run of a seed of dntn.py, and along a whole trial of tune_clustering.py, the
  trace follows the policy from plus infinity and best epoch -1: every evaluation that is
  tie-or-better than the running minimum is followed at once by its save, there is no other
  save, and the policy ends at the minimum and best epoch the loop ends with. The epochs
  trained are an initial stretch of \<^verbatim>\<open>range(EPOCHS)\<close>, not empty when an epoch is planned;
  they are all of it when the trial is not pruned, and in dntn.py unless the loop ends with
  the counter at \<^verbatim>\<open>EPOCHS // 5\<close>. The save directory ends with the checkpoint of the last
  save.
\<close>

theorem best_checkpoint_policy:
  "best_val_loss (dntn_init lib SEED w) = PosInf \<and>
   best_val_loss (tune_init lib depth flag w) = PosInf \<and>
   (let (m, opt) = train_stochastic lib (Finite 0) e (model s, optimizer s);
        v = evaluate lib e m;
        c = \<lparr>ckpt_model = m, ckpt_optimizer = opt, ckpt_state = st,
             ckpt_kwargs = [(''epoch'', PInt e), (''valid_ER'', PFloat v)]\<rparr>;
        s' = snd (dntn_epoch lib st dir E e s)
    in if float_le v (best_val_loss s)
       then filter is_save (new_events (world s) (world s')) = [SaveModel dir c] \<and>
            disk (world s') = (disk (world s))(dir \<mapsto> c) \<and>
            best_val_loss s' = v \<and> best_e s' = e \<and> no_improv s' = 0
       else filter is_save (new_events (world s) (world s')) = [] \<and>
            disk (world s') = disk (world s) \<and>
            best_val_loss s' = best_val_loss s \<and> best_e s' = best_e s) \<and>
   (let (m, opt) = train_stochastic lib reg e (model t, optimizer t);
        v = evaluate lib e m;
        c = \<lparr>ckpt_model = m, ckpt_optimizer = opt, ckpt_state = st,
             ckpt_kwargs = [(''epoch'', PInt e), (''val_mse'', PFloat v)]\<rparr>;
        t' = snd (tune_epoch lib st dir mon reg e t)
    in if float_le v (best_val_loss t)
       then filter is_save (new_events (world t) (world t')) = [SaveModel dir c] \<and>
            disk (world t') = (disk (world t))(dir \<mapsto> c) \<and>
            best_val_loss t' = v \<and> best_e t' = e
       else filter is_save (new_events (world t) (world t')) = [] \<and>
            disk (world t') = disk (world t) \<and>
            best_val_loss t' = best_val_loss t \<and> best_e t' = best_e t) \<and>
   (let save_dir = DntnSaveDir D SEED;
        state = dntn_state D SEED;
        fin = dntn_epochs lib state save_dir EPOCHS (range_py EPOCHS)
                (dntn_init lib SEED (emit (MakeDirectory save_dir) w));
        (out, w') = dntn_seed lib EPOCHS D SEED w;
        evs = new_events w w'
    in policy save_dir state ''valid_ER'' evs (Some (PosInf, - 1, None)) =
         Some (best_val_loss fin, best_e fin, None) \<and>
       trained evs = take (length (trained evs)) (range_py EPOCHS) \<and>
       (1 \<le> EPOCHS \<longrightarrow> trained evs \<noteq> []) \<and>
       (trained evs = range_py EPOCHS \<or> no_improv fin = EPOCHS div 5) \<and>
       disk w' save_dir =
         (case last_save evs of None \<Rightarrow> disk w save_dir | Some (p, c) \<Rightarrow> Some c)) \<and>
   (let save_dir = TuneSaveDir (TREE_DEPTH trl) (REG trl);
        state = tune_state (REG trl);
        pruning_flag = float_lt (Finite 0) (REG trl);
        (pruned, fin) = tune_epochs lib state save_dir (MonitorTree_init pruning_flag save_dir)
                          (REG trl) (range_py EPOCHS)
                          (tune_init lib (TREE_DEPTH trl) pruning_flag
                             (emit (MakeDirectory save_dir) w));
        (out, w') = objective lib EPOCHS trl w;
        evs = new_events w w'
    in policy save_dir state ''val_mse'' evs (Some (PosInf, - 1, None)) =
         Some (best_val_loss fin, best_e fin, None) \<and>
       trained evs = take (length (trained evs)) (range_py EPOCHS) \<and>
       (1 \<le> EPOCHS \<longrightarrow> trained evs \<noteq> []) \<and>
       (out \<noteq> Inl TrialPruned \<longrightarrow> trained evs = range_py EPOCHS) \<and>
       disk w' save_dir =
         (case last_save evs of None \<Rightarrow> disk w save_dir | Some (p, c) \<Rightarrow> Some c))"
proof -
  obtain m opt where tr: "train_stochastic lib (Finite 0) e (model s, optimizer s) = (m, opt)"
    by (cases "train_stochastic lib (Finite 0) e (model s, optimizer s)")
  obtain m2 opt2 where tr2: "train_stochastic lib reg e (model t, optimizer t) = (m2, opt2)"
    by (cases "train_stochastic lib reg e (model t, optimizer t)")
  have init: "best_val_loss (dntn_init lib SEED w) = PosInf"
    "best_val_loss (tune_init lib depth flag w) = PosInf"
    by (simp_all add: dntn_init_def tune_init_def Let_def)
  have d: "(let (m, opt) = train_stochastic lib (Finite 0) e (model s, optimizer s);
        v = evaluate lib e m;
        c = \<lparr>ckpt_model = m, ckpt_optimizer = opt, ckpt_state = st,
             ckpt_kwargs = [(''epoch'', PInt e), (''valid_ER'', PFloat v)]\<rparr>;
        s' = snd (dntn_epoch lib st dir E e s)
    in if float_le v (best_val_loss s)
       then filter is_save (new_events (world s) (world s')) = [SaveModel dir c] \<and>
            disk (world s') = (disk (world s))(dir \<mapsto> c) \<and>
            best_val_loss s' = v \<and> best_e s' = e \<and> no_improv s' = 0
       else filter is_save (new_events (world s) (world s')) = [] \<and>
            disk (world s') = disk (world s) \<and>
            best_val_loss s' = best_val_loss s \<and> best_e s' = best_e s)"
    by (simp add: tr dntn_epoch_eq [OF tr refl] new_events_def Let_def)
  have u: "(let (m, opt) = train_stochastic lib reg e (model t, optimizer t);
        v = evaluate lib e m;
        c = \<lparr>ckpt_model = m, ckpt_optimizer = opt, ckpt_state = st,
             ckpt_kwargs = [(''epoch'', PInt e), (''val_mse'', PFloat v)]\<rparr>;
        t' = snd (tune_epoch lib st dir mon reg e t)
    in if float_le v (best_val_loss t)
       then filter is_save (new_events (world t) (world t')) = [SaveModel dir c] \<and>
            disk (world t') = (disk (world t))(dir \<mapsto> c) \<and>
            best_val_loss t' = v \<and> best_e t' = e
       else filter is_save (new_events (world t) (world t')) = [] \<and>
            disk (world t') = disk (world t) \<and>
            best_val_loss t' = best_val_loss t \<and> best_e t' = best_e t)"
    by (simp add: tr2 tune_epoch_eq [OF tr2 refl] new_events_def Let_def trace_MonitorTree_write)
  have rd: "(let save_dir = DntnSaveDir D SEED;
        state = dntn_state D SEED;
        fin = dntn_epochs lib state save_dir EPOCHS (range_py EPOCHS)
                (dntn_init lib SEED (emit (MakeDirectory save_dir) w));
        (out, w') = dntn_seed lib EPOCHS D SEED w;
        evs = new_events w w'
    in policy save_dir state ''valid_ER'' evs (Some (PosInf, - 1, None)) =
         Some (best_val_loss fin, best_e fin, None) \<and>
       trained evs = take (length (trained evs)) (range_py EPOCHS) \<and>
       (1 \<le> EPOCHS \<longrightarrow> trained evs \<noteq> []) \<and>
       (trained evs = range_py EPOCHS \<or> no_improv fin = EPOCHS div 5) \<and>
       disk w' save_dir =
         (case last_save evs of None \<Rightarrow> disk w save_dir | Some (p, c) \<Rightarrow> Some c))"
    using dntn_seed_policy [where lib = lib and D = D and SEED = SEED and EPOCHS = EPOCHS
        and w = w]
      dntn_seed_extent [where lib = lib and D = D and SEED = SEED and EPOCHS = EPOCHS
        and w = w]
    by (simp add: Let_def split_def)
  have rt: "(let save_dir = TuneSaveDir (TREE_DEPTH trl) (REG trl);
        state = tune_state (REG trl);
        pruning_flag = float_lt (Finite 0) (REG trl);
        (pruned, fin) = tune_epochs lib state save_dir (MonitorTree_init pruning_flag save_dir)
                          (REG trl) (range_py EPOCHS)
                          (tune_init lib (TREE_DEPTH trl) pruning_flag
                             (emit (MakeDirectory save_dir) w));
        (out, w') = objective lib EPOCHS trl w;
        evs = new_events w w'
    in policy save_dir state ''val_mse'' evs (Some (PosInf, - 1, None)) =
         Some (best_val_loss fin, best_e fin, None) \<and>
       trained evs = take (length (trained evs)) (range_py EPOCHS) \<and>
       (1 \<le> EPOCHS \<longrightarrow> trained evs \<noteq> []) \<and>
       (out \<noteq> Inl TrialPruned \<longrightarrow> trained evs = range_py EPOCHS) \<and>
       disk w' save_dir =
         (case last_save evs of None \<Rightarrow> disk w save_dir | Some (p, c) \<Rightarrow> Some c))"
    using objective_policy [where lib = lib and t = trl and EPOCHS = EPOCHS and w = w]
    by (simp add: Let_def split_def)
  from init d u rd rt show ?thesis by blast
qed


text \<open>
  The first epoch of a run of dntn.py with validation metric 0.5 improves on plus infinity:
  its checkpoint holds the trained model, and the counter is back at zero. The script's
  one-epoch run trains epoch 0 and its trace follows the policy to minimum 0.5 at epoch 0.
  A trial of three epochs with metrics 0.5, 0.7 and 0.4 trains all three, saves in the
  first and the third, and ends at minimum 0.4 and best epoch 2.
\<close>

theorem best_checkpoint_policy_witness:
  "float_le (Finite 0.5) (best_val_loss (dntn_init (example_lib [Finite 0.5]) 1225 empty_world)) \<and>
   (let s' = snd (dntn_epoch (example_lib [Finite 0.5]) (dntn_state ''HIGGS'' 1225)
                    (DntnSaveDir ''HIGGS'' 1225) 1 0
                    (dntn_init (example_lib [Finite 0.5]) 1225 empty_world))
    in disk (world s') (DntnSaveDir ''HIGGS'' 1225) =
         Some \<lparr>ckpt_model = 1, ckpt_optimizer = 0, ckpt_state = dntn_state ''HIGGS'' 1225,
               ckpt_kwargs = [(''epoch'', PInt 0), (''valid_ER'', PFloat (Finite 0.5))]\<rparr> \<and>
       best_val_loss s' = Finite 0.5 \<and> best_e s' = 0 \<and> no_improv s' = 0) \<and>
   (1::int) \<le> EPOCHS_dntn \<and>
   trained (new_events empty_world
      (snd (dntn_seed (example_lib [Finite 0.5]) EPOCHS_dntn ''HIGGS'' 1225 empty_world))) = [0] \<and>
   policy (DntnSaveDir ''HIGGS'' 1225) (dntn_state ''HIGGS'' 1225) ''valid_ER''
     (new_events empty_world
        (snd (dntn_seed (example_lib [Finite 0.5]) EPOCHS_dntn ''HIGGS'' 1225 empty_world)))
     (Some (PosInf, - 1, None)) = Some (Finite 0.5, 0, None) \<and>
   fst (objective (example_lib [Finite 0.5, Finite 0.7, Finite 0.4]) 3
          \<lparr>TREE_DEPTH = 2, REG = Finite 1\<rparr> empty_world) \<noteq> Inl TrialPruned \<and>
   trained (new_events empty_world
      (snd (objective (example_lib [Finite 0.5, Finite 0.7, Finite 0.4]) 3
              \<lparr>TREE_DEPTH = 2, REG = Finite 1\<rparr> empty_world))) = [0, 1, 2] \<and>
   policy (TuneSaveDir 2 (Finite 1)) (tune_state (Finite 1)) ''val_mse''
     (new_events empty_world
        (snd (objective (example_lib [Finite 0.5, Finite 0.7, Finite 0.4]) 3
                \<lparr>TREE_DEPTH = 2, REG = Finite 1\<rparr> empty_world)))
     (Some (PosInf, - 1, None)) = Some (Finite 0.4, 2, None)"
proof -
  let ?lib = "example_lib [Finite 0.5]"
  let ?seed = "dntn_seed ?lib 1 ''HIGGS'' 1225 empty_world"
  let ?tlib = "example_lib [Finite 0.5, Finite 0.7, Finite 0.4]"
  let ?trl = "\<lparr>TREE_DEPTH = 2, REG = Finite 1\<rparr>"
  let ?obj = "objective ?tlib 3 ?trl empty_world"
  note inst = best_checkpoint_policy [where lib = ?lib and SEED = 1225
      and w = empty_world and e = 0 and st = "dntn_state ''HIGGS'' 1225"
      and dir = "DntnSaveDir ''HIGGS'' 1225" and E = 1
      and s = "dntn_init ?lib 1225 empty_world" and D = "''HIGGS''" and EPOCHS = 1
      and depth = 2 and flag = True and reg = "Finite 1"
      and t = "tune_init ?lib 2 True empty_world"
      and mon = "MonitorTree_init True (TuneSaveDir 2 (Finite 1))" and trl = ?trl]
  note tinst = best_checkpoint_policy [where lib = ?tlib and SEED = 1225
      and w = empty_world and e = 0 and st = "dntn_state ''HIGGS'' 1225"
      and dir = "DntnSaveDir ''HIGGS'' 1225" and E = 1
      and s = "dntn_init ?tlib 1225 empty_world" and D = "''HIGGS''" and EPOCHS = 3
      and depth = 2 and flag = True and reg = "Finite 1"
      and t = "tune_init ?tlib 2 True empty_world"
      and mon = "MonitorTree_init True (TuneSaveDir 2 (Finite 1))" and trl = ?trl]
  from inst have a: "float_le (Finite 0.5) (best_val_loss (dntn_init ?lib 1225 empty_world)) \<and>
   (let s' = snd (dntn_epoch ?lib (dntn_state ''HIGGS'' 1225)
                    (DntnSaveDir ''HIGGS'' 1225) 1 0 (dntn_init ?lib 1225 empty_world))
    in disk (world s') (DntnSaveDir ''HIGGS'' 1225) =
         Some \<lparr>ckpt_model = 1, ckpt_optimizer = 0, ckpt_state = dntn_state ''HIGGS'' 1225,
               ckpt_kwargs = [(''epoch'', PInt 0), (''valid_ER'', PFloat (Finite 0.5))]\<rparr> \<and>
       best_val_loss s' = Finite 0.5 \<and> best_e s' = 0 \<and> no_improv s' = 0)"
    by (simp add: example_lib_def dntn_init_def empty_world_def Let_def)
  note rd = inst [THEN conjunct2, THEN conjunct2, THEN conjunct2, THEN conjunct2,
      THEN conjunct1, unfolded Let_def split_def]
  note rt = tinst [THEN conjunct2, THEN conjunct2, THEN conjunct2, THEN conjunct2,
      THEN conjunct2, unfolded Let_def split_def]
  have fin: "best_val_loss (dntn_epochs ?lib (dntn_state ''HIGGS'' 1225)
        (DntnSaveDir ''HIGGS'' 1225) 1 (range_py 1)
        (dntn_init ?lib 1225 (emit (MakeDirectory (DntnSaveDir ''HIGGS'' 1225)) empty_world)))
      = Finite 0.5"
    "best_e (dntn_epochs ?lib (dntn_state ''HIGGS'' 1225)
        (DntnSaveDir ''HIGGS'' 1225) 1 (range_py 1)
        (dntn_init ?lib 1225 (emit (MakeDirectory (DntnSaveDir ''HIGGS'' 1225)) empty_world)))
      = 0"
    by (simp_all add: dntn_init_def dntn_epoch_def example_lib_def empty_world_def range_py_def
        Let_def save_model_def emit_def)
  have pol: "policy (DntnSaveDir ''HIGGS'' 1225) (dntn_state ''HIGGS'' 1225)
      ''valid_ER'' (new_events empty_world (snd ?seed)) (Some (PosInf, - 1, None)) =
      Some (Finite 0.5, 0, None)"
    using rd [THEN conjunct1] by (simp only: fin)
  have one: "(1::int) \<le> 1" by simp
  note tr1 = rd [THEN conjunct2, THEN conjunct1]
  note ne = rd [THEN conjunct2, THEN conjunct2, THEN conjunct1, rule_format, OF one]
  have r1: "range_py 1 = [0]" by (simp add: range_py_def)
  from tr1 ne have tr: "trained (new_events empty_world (snd ?seed)) = [0]"
    unfolding r1 by (cases "trained (new_events empty_world (snd ?seed))") (auto split: if_splits)
  have np: "fst ?obj \<noteq> Inl TrialPruned"
    by (simp add: objective_def tune_init_def tune_epoch_def MonitorTree_init_def
        MonitorTree_write_def MonitorTree_close_def add_scalars_def example_lib_def
        empty_world_def range_py_def upt_conv_Cons Let_def load_model_def
        save_model_def emit_def numeral_nat)
  have tfin: "best_val_loss (snd (tune_epochs ?tlib (tune_state (REG ?trl))
        (TuneSaveDir (TREE_DEPTH ?trl) (REG ?trl))
        (MonitorTree_init (float_lt (Finite 0) (REG ?trl))
           (TuneSaveDir (TREE_DEPTH ?trl) (REG ?trl)))
        (REG ?trl) (range_py 3)
        (tune_init ?tlib (TREE_DEPTH ?trl) (float_lt (Finite 0) (REG ?trl))
           (emit (MakeDirectory (TuneSaveDir (TREE_DEPTH ?trl) (REG ?trl))) empty_world))))
      = Finite 0.4"
    "best_e (snd (tune_epochs ?tlib (tune_state (REG ?trl))
        (TuneSaveDir (TREE_DEPTH ?trl) (REG ?trl))
        (MonitorTree_init (float_lt (Finite 0) (REG ?trl))
           (TuneSaveDir (TREE_DEPTH ?trl) (REG ?trl)))
        (REG ?trl) (range_py 3)
        (tune_init ?tlib (TREE_DEPTH ?trl) (float_lt (Finite 0) (REG ?trl))
           (emit (MakeDirectory (TuneSaveDir (TREE_DEPTH ?trl) (REG ?trl))) empty_world))))
      = 2"
    by (simp_all add: tune_init_def tune_epoch_def MonitorTree_init_def
        MonitorTree_write_def MonitorTree_close_def add_scalars_def example_lib_def
        empty_world_def range_py_def upt_conv_Cons Let_def
        save_model_def emit_def numeral_nat)
  note ttr = rt [THEN conjunct2, THEN conjunct2, THEN conjunct2, THEN conjunct1,
      rule_format, OF np]
  have r3: "range_py 3 = [0, 1, 2]" by (simp add: range_py_def upt_conv_Cons numeral_nat)
  have tpol: "policy (TuneSaveDir (TREE_DEPTH ?trl) (REG ?trl)) (tune_state (REG ?trl))
      ''val_mse'' (new_events empty_world (snd ?obj)) (Some (PosInf, - 1, None)) =
      Some (Finite 0.4, 2, None)"
    using rt [THEN conjunct1] by (simp only: tfin)
  from a pol tr np ttr tpol show ?thesis by (simp add: EPOCHS_dntn_def r3)
qed

text \<open>
  C2. Early-stop counter. The counter starts at zero and is never negative. After an epoch
  it is zero when the metric was tie-or-better than the running minimum, and one more than
  before otherwise: it is zero after an epoch only when the metric improved. The epoch ends
  in \<^verbatim>\<open>break\<close> exactly when the counter then equals \<^verbatim>\<open>EPOCHS // 5\<close>, and the loop goes on to
  the remaining epochs exactly when it does not.
\<close>

theorem early_stop_counter:
  assumes "0 \<le> no_improv s"
  shows "no_improv (dntn_init lib SEED w) = 0 \<and>
   (let (m, opt) = train_stochastic lib (Finite 0) e (model s, optimizer s);
        improved = float_le (evaluate lib e m) (best_val_loss s);
        (brk, s') = dntn_epoch lib st dir EPOCHS e s
    in no_improv s' = (if improved then 0 else no_improv s + 1) \<and>
       (no_improv s' = 0) = improved \<and>
       0 \<le> no_improv s' \<and>
       brk = (no_improv s' = EPOCHS div 5) \<and>
       dntn_epochs lib st dir EPOCHS (e # es) s =
         (if no_improv s' = EPOCHS div 5 then s' else dntn_epochs lib st dir EPOCHS es s'))"
proof -
  obtain m opt where tr: "train_stochastic lib (Finite 0) e (model s, optimizer s) = (m, opt)"
    by (cases "train_stochastic lib (Finite 0) e (model s, optimizer s)")
  have "no_improv (dntn_init lib SEED w) = 0"
    by (simp add: dntn_init_def Let_def)
  moreover have "(let (m, opt) = train_stochastic lib (Finite 0) e (model s, optimizer s);
        improved = float_le (evaluate lib e m) (best_val_loss s);
        (brk, s') = dntn_epoch lib st dir EPOCHS e s
    in no_improv s' = (if improved then 0 else no_improv s + 1) \<and>
       (no_improv s' = 0) = improved \<and>
       0 \<le> no_improv s' \<and>
       brk = (no_improv s' = EPOCHS div 5) \<and>
       dntn_epochs lib st dir EPOCHS (e # es) s =
         (if no_improv s' = EPOCHS div 5 then s' else dntn_epochs lib st dir EPOCHS es s'))"
    using assms by (auto simp: tr dntn_epoch_eq [OF tr refl] Let_def)
  ultimately show ?thesis by blast
qed

text \<open>
  With fifteen planned epochs the loop stops when the counter reaches three. An epoch with
  metric 0.7 after a best of 0.5 takes the counter from two to three, and the loop stops.
\<close>

theorem early_stop_counter_witness:
  "(0::int) \<le> 2 \<and>
   (let s = \<lparr>model = 3, optimizer = 3, best_val_loss = Finite 0.5, best_e = 0,
             world = empty_world, no_improv = 2\<rparr>;
        lib = example_lib [Finite 0.5, Finite 0.6, Finite 0.6, Finite 0.7, Finite 0.1];
        st = dntn_state ''HIGGS'' 1225;
        dir = DntnSaveDir ''HIGGS'' 1225
    in no_improv (snd (dntn_epoch lib st dir 15 3 s)) = 3 \<and>
       fst (dntn_epoch lib st dir 15 3 s) \<and>
       dntn_epochs lib st dir 15 [3, 4] s = snd (dntn_epoch lib st dir 15 3 s))"
  using early_stop_counter [where s = "\<lparr>model = 3, optimizer = 3, best_val_loss = Finite 0.5,
        best_e = 0, world = empty_world, no_improv = 2\<rparr>"
      and lib = "example_lib [Finite 0.5, Finite 0.6, Finite 0.6, Finite 0.7, Finite 0.1]"
      and st = "dntn_state ''HIGGS'' 1225" and dir = "DntnSaveDir ''HIGGS'' 1225"
      and EPOCHS = 15 and e = 3 and es = "[4]" and SEED = 1225 and w = empty_world]
  by (simp add: example_lib_def Let_def split_def)

text \<open>
  C3, as amended. For a planned epoch count from 1 to 9 the loop of dntn.py trains exactly
  one epoch if and only if one epoch is all that is planned, or fewer than five epochs are
  planned and the first validation metric is a number (it improves on plus infinity, and the
  counter, back at zero, equals \<^verbatim>\<open>EPOCHS // 5\<close>), or five or more are planned and the first
  metric is NaN (the counter, at one, equals \<^verbatim>\<open>EPOCHS // 5\<close>).
\<close>

theorem early_stop_first_epoch:
  assumes "1 \<le> EPOCHS" and "EPOCHS < 10"
  shows "(let m0 = DNDT lib SEED;
             v0 = evaluate lib 0 (fst (train_stochastic lib (Finite 0) 0 (m0, QHAdam lib m0)))
          in (dntn_epochs_run lib EPOCHS DATA_NAME SEED w = 1) =
             (EPOCHS = 1 \<or> (EPOCHS < 5 \<and> v0 \<noteq> NaN) \<or> (5 \<le> EPOCHS \<and> v0 = NaN)))"
proof -
  let ?dir = "DntnSaveDir DATA_NAME SEED"
  let ?st = "dntn_state DATA_NAME SEED"
  let ?wmk = "emit (MakeDirectory ?dir) w"
  let ?ini = "dntn_init lib SEED ?wmk"
  let ?rest = "map int [1..<nat EPOCHS]"
  obtain m opt where tr: "train_stochastic lib (Finite 0) 0 (model ?ini, optimizer ?ini) = (m, opt)"
    by (cases "train_stochastic lib (Finite 0) 0 (model ?ini, optimizer ?ini)")
  then have tr':
    "train_stochastic lib (Finite 0) 0 (DNDT lib SEED, QHAdam lib (DNDT lib SEED)) = (m, opt)"
    by (simp add: dntn_init_def Let_def)
  let ?v0 = "evaluate lib 0 m"
  obtain brk s1 where ep: "dntn_epoch lib ?st ?dir EPOCHS 0 ?ini = (brk, s1)"
    by (cases "dntn_epoch lib ?st ?dir EPOCHS 0 ?ini")
  have init: "best_val_loss ?ini = PosInf" "no_improv ?ini = 0" "world ?ini = ?wmk"
    by (simp_all add: dntn_init_def Let_def)
  have brk: "brk = (if ?v0 \<noteq> NaN then EPOCHS div 5 = 0 else EPOCHS div 5 = 1)"
    using ep by (auto simp: dntn_epoch_eq [OF tr refl] init split: if_splits)
  from dntn_epoch_world [OF ep]
  obtain evs1 where 1: "run_ok ?dir ?st ''valid_ER'' (world ?ini) (world s1) evs1"
    "filter is_train evs1 = [TrainStochastic 0]"
    by blast
  from dntn_epochs_world [of ?dir ?st s1 lib EPOCHS ?rest]
  obtain evs2 where 2:
    "run_ok ?dir ?st ''valid_ER'' (world s1) (world (dntn_epochs lib ?st ?dir EPOCHS ?rest s1)) evs2"
    "epochs_run evs2 \<le> length ?rest" "?rest \<noteq> [] \<longrightarrow> 1 \<le> epochs_run evs2"
    by blast
  let ?fin = "dntn_epochs lib ?st ?dir EPOCHS (range_py EPOCHS) ?ini"
  have fin: "?fin = (if brk then s1 else dntn_epochs lib ?st ?dir EPOCHS ?rest s1)"
    using ep assms(1) by (simp add: range_py_Cons)
  have trf: "trace (world ?fin) = trace w @ MakeDirectory ?dir # evs1 @ (if brk then [] else evs2)"
    using 1(1) 2(1) by (simp add: fin run_ok_def init)
  have "new_events w (snd (dntn_seed lib EPOCHS DATA_NAME SEED w)) =
      MakeDirectory ?dir # (evs1 @ (if brk then [] else evs2)) @ LoadModel ?dir #
        (case disk (world ?fin) ?dir of
           None \<Rightarrow> []
         | Some c \<Rightarrow> [EvaluateTest (evaluate_test lib (ckpt_model c))])"
    using trf
    by (simp add: dntn_seed_def Let_def load_model_def new_events_def split: option.splits)
  then have run: "dntn_epochs_run lib EPOCHS DATA_NAME SEED w =
      (if brk then 1 else 1 + epochs_run evs2)"
    using 1(2) by (simp add: dntn_epochs_run_def epochs_run_def split: option.splits)
  have rest: "(?rest = []) = (EPOCHS = 1)"
    using assms(1) by auto
  have "(dntn_epochs_run lib EPOCHS DATA_NAME SEED w = 1) = (brk \<or> EPOCHS = 1)"
    using run 2 rest by auto
  moreover have "(EPOCHS div 5 = 0) = (EPOCHS < 5)" "(EPOCHS div 5 = 1) = (5 \<le> EPOCHS)"
    using assms by presburger+
  ultimately show ?thesis
    using brk by (auto simp: tr' Let_def)
qed

text \<open>
  Three planned epochs and a first metric of 0.5: the loop stops after the first epoch.
\<close>

theorem early_stop_first_epoch_witness:
  "(1::int) \<le> 3 \<and> (3::int) < 10 \<and>
   dntn_epochs_run (example_lib (replicate 3 (Finite 0.5))) 3 ''HIGGS'' 1225 empty_world = 1"
  using early_stop_first_epoch [where EPOCHS = 3 and lib = "example_lib (replicate 3 (Finite 0.5))"
      and SEED = 1225 and DATA_NAME = "''HIGGS''" and w = empty_world]
  by (simp add: example_lib_def Let_def numeral_3_eq_3)

text \<open>
  C3, as stated, fails: with five planned epochs and a metric of 0.5 in every epoch, every
  epoch ties the running minimum, the counter is zero at every check while \<^verbatim>\<open>5 // 5\<close> is
  one, and the loop does not stop after its first epoch.
\<close>

theorem early_stop_first_epoch_counterexample:
  "\<not> (dntn_epochs_run (example_lib (replicate 5 (Finite 0.5))) 5 ''HIGGS'' 1225 empty_world = 1)"
  by (simp add: dntn_epochs_run_def dntn_seed_def dntn_init_def dntn_epoch_def example_lib_def
      empty_world_def range_py_def upt_conv_Cons Let_def load_model_def new_events_def
      epochs_run_def save_model_def emit_def numeral_nat)

text \<open>
  C4. NaN-abort policy. When an epoch of a trial has a NaN validation metric, the trial ends
  in TrialPruned and returns no score, and the last events of the trial are that epoch's:
  training, the evaluation giving NaN, the scheduler step, the learning rate written to the
  monitor, then the export of the scalars to JSON and the closing of the writer; no earlier
  epoch had a NaN metric. When no epoch has a NaN metric, the trial returns the dendrogram
  purity of the model in the checkpoint of its save directory.
\<close>

theorem nan_abort_policy:
  assumes "1 \<le> EPOCHS"
  shows "(let dir = TuneSaveDir (TREE_DEPTH t) (REG t);
             (out, w') = objective lib EPOCHS t w;
             evs = new_events w w'
          in if list_ex is_nan_eval evs
             then out = Inl TrialPruned \<and>
                  (\<exists>pre e lr. \<not> list_ex is_nan_eval pre \<and> evs = pre @
                     [TrainStochastic e, Evaluate e NaN, LrSchedulerStep NaN,
                      Writer dir (AddScalars ''train'' [(''lr'', lr)] e),
                      Writer dir (ExportScalarsToJson ''./monitor_scalars.json''),
                      Writer dir WriterClose])
             else (\<exists>c. disk w' dir = Some c \<and>
                       out = Inr (LT_dendrogram_purity lib (ckpt_model c))))"
proof -
  let ?dir = "TuneSaveDir (TREE_DEPTH t) (REG t)"
  let ?flag = "float_lt (Finite 0) (REG t)"
  let ?r = "tune_epochs lib (tune_state (REG t)) ?dir (MonitorTree_init ?flag ?dir)
              (REG t) (range_py EPOCHS)
              (tune_init lib (TREE_DEPTH t) ?flag (emit (MakeDirectory ?dir) w))"
  let ?out = "fst (objective lib EPOCHS t w)"
  let ?w' = "snd (objective lib EPOCHS t w)"
  from objective_run [where lib = lib and t = t and EPOCHS = EPOCHS and w = w]
  obtain evs where evs:
    "run_ok ?dir (tune_state (REG t)) ''val_mse'' (emit (MakeDirectory ?dir) w) (world (snd ?r)) evs"
    "fst ?r = list_ex is_nan_eval evs"
    "fst ?r \<longrightarrow> (\<exists>pre e lr. \<not> list_ex is_nan_eval pre \<and> evs = pre @
             [TrainStochastic e, Evaluate e NaN, LrSchedulerStep NaN,
              Writer ?dir (AddScalars ''train'' [(''lr'', lr)] e),
              Writer ?dir (ExportScalarsToJson default_logfile),
              Writer ?dir WriterClose])"
    "1 \<le> EPOCHS \<and> \<not> fst ?r \<longrightarrow> list_ex is_save evs"
    "disk ?w' = disk (world (snd ?r))"
    "?out = (if fst ?r then Inl TrialPruned
            else case disk (world (snd ?r)) ?dir of
                   None \<Rightarrow> Inl MissingCheckpoint
                 | Some c \<Rightarrow> if 1 \<le> EPOCHS then Inr (LT_dendrogram_purity lib (ckpt_model c))
                             else Inl NameError)"
    "new_events w ?w' = MakeDirectory ?dir # evs @
           (if fst ?r then []
            else LoadModel ?dir #
              (case disk (world (snd ?r)) ?dir of
                 None \<Rightarrow> []
               | Some c \<Rightarrow>
                   DendrogramPurity (LT_dendrogram_purity lib (ckpt_model c)) #
                   (if 1 \<le> EPOCHS
                    then [Writer ?dir (AddScalars ''val''
                            [(''Dendrogram Purity'', LT_dendrogram_purity lib (ckpt_model c))]
                            (EPOCHS - 1)),
                          Writer ?dir (ExportScalarsToJson default_logfile),
                          Writer ?dir WriterClose]
                    else [])))"
    by blast
  have nan: "list_ex is_nan_eval (new_events w ?w') = fst ?r"
    using evs(2) by (simp add: evs(7) split: option.splits)
  show ?thesis
  proof (cases "fst ?r")
    case True
    with evs(3) obtain pre e lr where pre: "\<not> list_ex is_nan_eval pre" "evs = pre @
             [TrainStochastic e, Evaluate e NaN, LrSchedulerStep NaN,
              Writer ?dir (AddScalars ''train'' [(''lr'', lr)] e),
              Writer ?dir (ExportScalarsToJson default_logfile),
              Writer ?dir WriterClose]" by blast
    have "\<not> list_ex is_nan_eval (MakeDirectory ?dir # pre)" using pre(1) by simp
    moreover have "new_events w ?w' = (MakeDirectory ?dir # pre) @
             [TrainStochastic e, Evaluate e NaN, LrSchedulerStep NaN,
              Writer ?dir (AddScalars ''train'' [(''lr'', lr)] e),
              Writer ?dir (ExportScalarsToJson ''./monitor_scalars.json''),
              Writer ?dir WriterClose]"
      using True pre(2) by (simp add: evs(7) default_logfile_def)
    ultimately have "\<exists>pre e lr. \<not> list_ex is_nan_eval pre \<and> new_events w ?w' = pre @
             [TrainStochastic e, Evaluate e NaN, LrSchedulerStep NaN,
              Writer ?dir (AddScalars ''train'' [(''lr'', lr)] e),
              Writer ?dir (ExportScalarsToJson ''./monitor_scalars.json''),
              Writer ?dir WriterClose]" by blast
    moreover have "?out = Inl TrialPruned" using True by (simp add: evs(6))
    ultimately show ?thesis using nan True by (simp add: Let_def split_def)
  next
    case False
    with evs(4) assms have "list_ex is_save evs" by simp
    from run_ok_disk [OF evs(1) this]
    obtain c where c: "disk (world (snd ?r)) ?dir = Some c" by blast
    then have "disk ?w' ?dir = Some c" "?out = Inr (LT_dendrogram_purity lib (ckpt_model c))"
      using False assms by (simp_all add: evs(5) evs(6))
    then show ?thesis using nan False by (simp add: Let_def split_def)
  qed
qed

text \<open>
  A trial whose third epoch has a NaN metric is pruned after the scheduler step and the
  monitor's export; a trial of three epochs with metrics 0.5, 0.4 and 3 returns the purity
  of the model saved in the second epoch.
\<close>

theorem nan_abort_policy_witness:
  "(1::int) \<le> 5 \<and>
   list_ex is_nan_eval (new_events empty_world (snd (objective
      (example_lib [Finite 0.5, Finite 0.4, NaN]) 5
      \<lparr>TREE_DEPTH = 2, REG = Finite 1\<rparr> empty_world))) \<and>
   fst (objective (example_lib [Finite 0.5, Finite 0.4, NaN]) 5
          \<lparr>TREE_DEPTH = 2, REG = Finite 1\<rparr> empty_world) = Inl TrialPruned \<and>
   \<not> list_ex is_nan_eval (new_events empty_world (snd (objective
      (example_lib [Finite 0.5, Finite 0.4, Finite 3]) 3
      \<lparr>TREE_DEPTH = 2, REG = Finite 1\<rparr> empty_world))) \<and>
   fst (objective (example_lib [Finite 0.5, Finite 0.4, Finite 3]) 3
          \<lparr>TREE_DEPTH = 2, REG = Finite 1\<rparr> empty_world) = Inr (Finite 2)"
proof -
  let ?t = "\<lparr>TREE_DEPTH = 2, REG = Finite 1\<rparr>"
  let ?a = "objective (example_lib [Finite 0.5, Finite 0.4, NaN]) 5 ?t empty_world"
  let ?b = "objective (example_lib [Finite 0.5, Finite 0.4, Finite 3]) 3 ?t empty_world"
  have a: "list_ex is_nan_eval (new_events empty_world (snd ?a))"
    by (simp add: objective_def tune_init_def tune_epoch_def MonitorTree_init_def
        MonitorTree_write_def MonitorTree_close_def add_scalars_def example_lib_def
        empty_world_def range_py_def upt_conv_Cons Let_def load_model_def new_events_def
        save_model_def emit_def numeral_nat)
  have b: "\<not> list_ex is_nan_eval (new_events empty_world (snd ?b))"
    "disk (snd ?b) (TuneSaveDir 2 (Finite 1)) =
       Some \<lparr>ckpt_model = 2, ckpt_optimizer = 1, ckpt_state = tune_state (Finite 1),
             ckpt_kwargs = [(''epoch'', PInt 1), (''val_mse'', PFloat (Finite 0.4))]\<rparr>"
    by (simp_all add: objective_def tune_init_def tune_epoch_def MonitorTree_init_def
        MonitorTree_write_def MonitorTree_close_def add_scalars_def example_lib_def
        empty_world_def range_py_def upt_conv_Cons Let_def load_model_def new_events_def
        save_model_def emit_def numeral_nat)
  from nan_abort_policy [where EPOCHS = 5 and lib = "example_lib [Finite 0.5, Finite 0.4, NaN]"
      and t = ?t and w = empty_world] a
  have "fst ?a = Inl TrialPruned" by (simp add: split_def Let_def)
  moreover from nan_abort_policy [where EPOCHS = 3
      and lib = "example_lib [Finite 0.5, Finite 0.4, Finite 3]" and t = ?t and w = empty_world] b
  have "fst ?b = Inr (Finite 2)" by (simp add: split_def Let_def example_lib_def)
  ultimately show ?thesis using a b by simp
qed



text \<open>
  C6. A NaN validation metric never causes a save. In an epoch of either loop whose metric
  is NaN, no checkpoint is written and the disk, the running minimum and the best epoch
  are unchanged. When a trial of tune_clustering.py is pruned, the checkpoint in its save
  directory is the one of the trial's last save, whose metric is a number; when the trial
  made no save, the directory holds what it held before the trial.
\<close>

theorem nan_never_saves:
  "(let (m, opt) = train_stochastic lib (Finite 0) e (model s, optimizer s);
        s' = snd (dntn_epoch lib st dir E e s)
    in evaluate lib e m = NaN \<longrightarrow>
         filter is_save (new_events (world s) (world s')) = [] \<and>
         disk (world s') = disk (world s) \<and>
         best_val_loss s' = best_val_loss s \<and> best_e s' = best_e s) \<and>
   (let (m, opt) = train_stochastic lib reg e (model u, optimizer u);
        u' = snd (tune_epoch lib st dir mon reg e u)
    in evaluate lib e m = NaN \<longrightarrow>
         filter is_save (new_events (world u) (world u')) = [] \<and>
         disk (world u') = disk (world u) \<and>
         best_val_loss u' = best_val_loss u \<and> best_e u' = best_e u) \<and>
   (let tdir = TuneSaveDir (TREE_DEPTH t) (REG t);
        (out, w') = objective lib EPOCHS t w
    in out = Inl TrialPruned \<longrightarrow>
         (case last_save (new_events w w') of
            None \<Rightarrow> disk w' tdir = disk w tdir
          | Some (p, c) \<Rightarrow>
              p = tdir \<and> disk w' tdir = Some c \<and>
              (\<exists>e v. ckpt_kwargs c = [(''epoch'', PInt e), (''val_mse'', PFloat v)] \<and>
                     v \<noteq> NaN)))"
proof -
  obtain m opt where tr: "train_stochastic lib (Finite 0) e (model s, optimizer s) = (m, opt)"
    by (cases "train_stochastic lib (Finite 0) e (model s, optimizer s)")
  obtain m2 opt2 where tr2: "train_stochastic lib reg e (model u, optimizer u) = (m2, opt2)"
    by (cases "train_stochastic lib reg e (model u, optimizer u)")
  have a: "(let (m, opt) = train_stochastic lib (Finite 0) e (model s, optimizer s);
        s' = snd (dntn_epoch lib st dir E e s)
    in evaluate lib e m = NaN \<longrightarrow>
         filter is_save (new_events (world s) (world s')) = [] \<and>
         disk (world s') = disk (world s) \<and>
         best_val_loss s' = best_val_loss s \<and> best_e s' = best_e s)"
    by (simp add: tr dntn_epoch_eq [OF tr refl] new_events_def Let_def)
  have b: "(let (m, opt) = train_stochastic lib reg e (model u, optimizer u);
        u' = snd (tune_epoch lib st dir mon reg e u)
    in evaluate lib e m = NaN \<longrightarrow>
         filter is_save (new_events (world u) (world u')) = [] \<and>
         disk (world u') = disk (world u) \<and>
         best_val_loss u' = best_val_loss u \<and> best_e u' = best_e u)"
    by (simp add: tr2 tune_epoch_eq [OF tr2 refl] new_events_def Let_def trace_MonitorTree_write)
  let ?tdir = "TuneSaveDir (TREE_DEPTH t) (REG t)"
  let ?flag = "float_lt (Finite 0) (REG t)"
  let ?r = "tune_epochs lib (tune_state (REG t)) ?tdir (MonitorTree_init ?flag ?tdir)
              (REG t) (range_py EPOCHS)
              (tune_init lib (TREE_DEPTH t) ?flag (emit (MakeDirectory ?tdir) w))"
  let ?obj = "objective lib EPOCHS t w"
  from objective_run [where lib = lib and t = t and EPOCHS = EPOCHS and w = w]
  obtain tevs where tevs:
    "run_ok ?tdir (tune_state (REG t)) ''val_mse'' (emit (MakeDirectory ?tdir) w)
       (world (snd ?r)) tevs"
    "disk (snd ?obj) = disk (world (snd ?r))"
    "fst ?obj = (if fst ?r then Inl TrialPruned
            else case disk (world (snd ?r)) ?tdir of
                   None \<Rightarrow> Inl MissingCheckpoint
                 | Some c \<Rightarrow> if 1 \<le> EPOCHS then Inr (LT_dendrogram_purity lib (ckpt_model c))
                             else Inl NameError)"
    "new_events w (snd ?obj) = MakeDirectory ?tdir # tevs @
           (if fst ?r then []
            else LoadModel ?tdir #
              (case disk (world (snd ?r)) ?tdir of
                 None \<Rightarrow> []
               | Some c \<Rightarrow>
                   DendrogramPurity (LT_dendrogram_purity lib (ckpt_model c)) #
                   (if 1 \<le> EPOCHS
                    then [Writer ?tdir (AddScalars ''val''
                            [(''Dendrogram Purity'', LT_dendrogram_purity lib (ckpt_model c))]
                            (EPOCHS - 1)),
                          Writer ?tdir (ExportScalarsToJson default_logfile),
                          Writer ?tdir WriterClose]
                    else [])))"
    by blast
  have c: "fst ?obj = Inl TrialPruned \<longrightarrow>
         (case last_save (new_events w (snd ?obj)) of
            None \<Rightarrow> disk (snd ?obj) ?tdir = disk w ?tdir
          | Some (p, c) \<Rightarrow>
              p = ?tdir \<and> disk (snd ?obj) ?tdir = Some c \<and>
              (\<exists>e v. ckpt_kwargs c = [(''epoch'', PInt e), (''val_mse'', PFloat v)] \<and>
                     v \<noteq> NaN))"
  proof
    assume pr: "fst ?obj = Inl TrialPruned"
    have "fst ?r"
    proof (rule ccontr)
      assume "\<not> fst ?r"
      with pr tevs(3) show False by (simp split: option.splits if_splits)
    qed
    then have ne: "new_events w (snd ?obj) = MakeDirectory ?tdir # tevs"
      by (simp add: tevs(4))
    have ls: "last_save (MakeDirectory ?tdir # tevs) = last_save tevs"
      by (simp split: option.splits)
    note rl = run_ok_last_save [OF tevs(1)]
    show "case last_save (new_events w (snd ?obj)) of
            None \<Rightarrow> disk (snd ?obj) ?tdir = disk w ?tdir
          | Some (p, c) \<Rightarrow>
              p = ?tdir \<and> disk (snd ?obj) ?tdir = Some c \<and>
              (\<exists>e v. ckpt_kwargs c = [(''epoch'', PInt e), (''val_mse'', PFloat v)] \<and>
                     v \<noteq> NaN)"
    proof (cases "last_save tevs")
      case None
      with rl show ?thesis by (simp add: ne ls tevs(2))
    next
      case (Some x)
      obtain p c where x: "x = (p, c)" by (cases x)
      with rl Some show ?thesis by (simp add: ne ls tevs(2))
    qed
  qed
  then have c': "(let tdir = TuneSaveDir (TREE_DEPTH t) (REG t);
        (out, w') = objective lib EPOCHS t w
    in out = Inl TrialPruned \<longrightarrow>
         (case last_save (new_events w w') of
            None \<Rightarrow> disk w' tdir = disk w tdir
          | Some (p, c) \<Rightarrow>
              p = tdir \<and> disk w' tdir = Some c \<and>
              (\<exists>e v. ckpt_kwargs c = [(''epoch'', PInt e), (''val_mse'', PFloat v)] \<and>
                     v \<noteq> NaN)))"
    by (simp add: Let_def split_def)
  from a b c' show ?thesis by blast
qed

text \<open>
  A dntn.py epoch with a NaN metric after a best of 0.5 leaves the minimum, the best epoch
  and the disk alone. A trial with metrics 0.5, 0.4, NaN is pruned in its third epoch, and
  its directory then holds the checkpoint of the second epoch, with metric 0.4.
\<close>

theorem nan_never_saves_witness:
  "(let s = \<lparr>model = 1, optimizer = 1, best_val_loss = Finite 0.5, best_e = 0,
             world = empty_world, no_improv = 0\<rparr>;
        s' = snd (dntn_epoch (example_lib [Finite 0.5, NaN]) (dntn_state ''HIGGS'' 1225)
                    (DntnSaveDir ''HIGGS'' 1225) 15 1 s)
    in best_val_loss s' = Finite 0.5 \<and> best_e s' = 0 \<and> disk (world s') = Map.empty) \<and>
   fst (objective (example_lib [Finite 0.5, Finite 0.4, NaN]) 5
          \<lparr>TREE_DEPTH = 2, REG = Finite 1\<rparr> empty_world) = Inl TrialPruned \<and>
   disk (snd (objective (example_lib [Finite 0.5, Finite 0.4, NaN]) 5
                \<lparr>TREE_DEPTH = 2, REG = Finite 1\<rparr> empty_world)) (TuneSaveDir 2 (Finite 1)) =
     Some \<lparr>ckpt_model = 2, ckpt_optimizer = 1, ckpt_state = tune_state (Finite 1),
           ckpt_kwargs = [(''epoch'', PInt 1), (''val_mse'', PFloat (Finite 0.4))]\<rparr>"
proof -
  let ?lib = "example_lib [Finite 0.5, Finite 0.4, NaN]"
  let ?t = "\<lparr>TREE_DEPTH = 2, REG = Finite 1\<rparr>"
  let ?obj = "objective ?lib 5 ?t empty_world"
  let ?s = "\<lparr>model = 1, optimizer = 1, best_val_loss = Finite 0.5, best_e = 0,
             world = empty_world, no_improv = 0\<rparr> :: (nat, nat) dntn_vars"
  have pr: "fst ?obj = Inl TrialPruned"
    by (simp add: objective_def tune_init_def tune_epoch_def MonitorTree_init_def
        MonitorTree_write_def MonitorTree_close_def add_scalars_def example_lib_def
        empty_world_def range_py_def upt_conv_Cons Let_def load_model_def
        save_model_def emit_def numeral_nat)
  have ls: "last_save (new_events empty_world (snd ?obj)) =
      Some (TuneSaveDir 2 (Finite 1),
            \<lparr>ckpt_model = 2, ckpt_optimizer = 1, ckpt_state = tune_state (Finite 1),
             ckpt_kwargs = [(''epoch'', PInt 1), (''val_mse'', PFloat (Finite 0.4))]\<rparr>)"
    by (simp add: objective_def tune_init_def tune_epoch_def MonitorTree_init_def
        MonitorTree_write_def MonitorTree_close_def add_scalars_def example_lib_def
        empty_world_def range_py_def upt_conv_Cons Let_def load_model_def new_events_def
        save_model_def emit_def numeral_nat)
  note inst = nan_never_saves [where lib = "example_lib [Finite 0.5, NaN]" and e = 1
      and s = ?s and st = "dntn_state ''HIGGS'' 1225" and dir = "DntnSaveDir ''HIGGS'' 1225"
      and E = 15 and t = ?t and EPOCHS = 5 and w = empty_world]
  note inst2 = nan_never_saves [where lib = ?lib and t = ?t and EPOCHS = 5 and w = empty_world]
  from inst have a: "(let s' = snd (dntn_epoch (example_lib [Finite 0.5, NaN])
                    (dntn_state ''HIGGS'' 1225) (DntnSaveDir ''HIGGS'' 1225) 15 1 ?s)
    in best_val_loss s' = Finite 0.5 \<and> best_e s' = 0 \<and> disk (world s') = Map.empty)"
    by (simp add: example_lib_def Let_def empty_world_def)
  from inst2 pr ls have b: "disk (snd ?obj) (TuneSaveDir 2 (Finite 1)) =
     Some \<lparr>ckpt_model = 2, ckpt_optimizer = 1, ckpt_state = tune_state (Finite 1),
           ckpt_kwargs = [(''epoch'', PInt 1), (''val_mse'', PFloat (Finite 0.4))]\<rparr>"
    by (simp add: split_def Let_def)
  from a pr b show ?thesis by simp
qed

text \<open>
  C7. State record contents. The state record of dntn.py has exactly the keys batch-size,
  loss-function, learning-rate, seed and dataset, that of tune_clustering.py has these and
  then reg and linear; the keys are strings, distinct, and the values are primitive. Every
  checkpoint a run of dntn.py or a trial of tune_clustering.py saves carries the run's
  state record.
\<close>

theorem state_record_contents:
  "dntn_state D SEED =
     [(''batch-size'', PInt 512), (''loss-function'', PStr ''BCE''),
      (''learning-rate'', PFloat (Finite 0.001)), (''seed'', PInt SEED),
      (''dataset'', PStr D)] \<and>
   tune_state reg =
     [(''batch-size'', PInt 512), (''loss-function'', PStr ''MSE''),
      (''learning-rate'', PFloat (Finite 0.1)), (''seed'', PInt 1337),
      (''dataset'', PStr ''COVTYPE''), (''reg'', PFloat reg), (''linear'', PBool True)] \<and>
   map fst (tune_state reg) = map fst (dntn_state D SEED) @ [''reg'', ''linear''] \<and>
   distinct (map fst (tune_state reg)) \<and>
   list_all (carries_state (dntn_state D SEED))
     (new_events w (snd (dntn_seed lib EPOCHS D SEED w))) \<and>
   list_all (carries_state (tune_state (REG t)))
     (new_events w (snd (objective lib EPOCHS t w)))"
proof -
  have a: "dntn_state D SEED =
     [(''batch-size'', PInt 512), (''loss-function'', PStr ''BCE''),
      (''learning-rate'', PFloat (Finite 0.001)), (''seed'', PInt SEED),
      (''dataset'', PStr D)]"
    by (simp add: dntn_state_def BATCH_SIZE_dntn_def LR_dntn_def)
  have b: "tune_state reg =
     [(''batch-size'', PInt 512), (''loss-function'', PStr ''MSE''),
      (''learning-rate'', PFloat (Finite 0.1)), (''seed'', PInt 1337),
      (''dataset'', PStr ''COVTYPE''), (''reg'', PFloat reg), (''linear'', PBool True)]"
    by (simp add: tune_state_def BATCH_SIZE_tune_def LR_tune_def SEED_tune_def
        DATA_NAME_tune_def)
  have c: "map fst (tune_state reg) = map fst (dntn_state D SEED) @ [''reg'', ''linear'']"
    "distinct (map fst (tune_state reg))"
    by (simp_all add: a b)
  let ?dir = "DntnSaveDir D SEED"
  let ?s = "dntn_epochs lib (dntn_state D SEED) ?dir EPOCHS (range_py EPOCHS)
              (dntn_init lib SEED (emit (MakeDirectory ?dir) w))"
  let ?seed = "dntn_seed lib EPOCHS D SEED w"
  from dntn_seed_run [where lib = lib and D = D and SEED = SEED and EPOCHS = EPOCHS and w = w]
  obtain evs where evs:
    "run_ok ?dir (dntn_state D SEED) ''valid_ER'' (emit (MakeDirectory ?dir) w) (world ?s) evs"
    "new_events w (snd ?seed) = MakeDirectory ?dir # evs @ LoadModel ?dir #
       (case disk (world ?s) ?dir of
          None \<Rightarrow> []
        | Some c \<Rightarrow> [EvaluateTest (evaluate_test lib (ckpt_model c))])"
    by blast
  have "\<forall>ev\<in>set evs. carries_state (dntn_state D SEED) ev"
    using run_ok_saves [OF evs(1)] save_ok_carries by blast
  then have d: "list_all (carries_state (dntn_state D SEED)) (new_events w (snd ?seed))"
    by (auto simp: evs(2) list_all_iff split: option.splits)
  let ?tdir = "TuneSaveDir (TREE_DEPTH t) (REG t)"
  let ?flag = "float_lt (Finite 0) (REG t)"
  let ?r = "tune_epochs lib (tune_state (REG t)) ?tdir (MonitorTree_init ?flag ?tdir)
              (REG t) (range_py EPOCHS)
              (tune_init lib (TREE_DEPTH t) ?flag (emit (MakeDirectory ?tdir) w))"
  let ?obj = "objective lib EPOCHS t w"
  from objective_run [where lib = lib and t = t and EPOCHS = EPOCHS and w = w]
  obtain tevs where tevs:
    "run_ok ?tdir (tune_state (REG t)) ''val_mse'' (emit (MakeDirectory ?tdir) w)
       (world (snd ?r)) tevs"
    "new_events w (snd ?obj) = MakeDirectory ?tdir # tevs @
           (if fst ?r then []
            else LoadModel ?tdir #
              (case disk (world (snd ?r)) ?tdir of
                 None \<Rightarrow> []
               | Some c \<Rightarrow>
                   DendrogramPurity (LT_dendrogram_purity lib (ckpt_model c)) #
                   (if 1 \<le> EPOCHS
                    then [Writer ?tdir (AddScalars ''val''
                            [(''Dendrogram Purity'', LT_dendrogram_purity lib (ckpt_model c))]
                            (EPOCHS - 1)),
                          Writer ?tdir (ExportScalarsToJson default_logfile),
                          Writer ?tdir WriterClose]
                    else [])))"
    by blast
  have "\<forall>ev\<in>set tevs. carries_state (tune_state (REG t)) ev"
    using run_ok_saves [OF tevs(1)] save_ok_carries by blast
  then have e: "list_all (carries_state (tune_state (REG t))) (new_events w (snd ?obj))"
    by (auto simp: tevs(2) list_all_iff split: option.splits)
  from a b c d e show ?thesis by blast
qed

text \<open>
  The checkpoint saved by a one-epoch run of dntn.py on HIGGS with seed 1225 carries the
  five-entry state record of that run.
\<close>

theorem state_record_contents_witness:
  "SaveModel (DntnSaveDir ''HIGGS'' 1225)
     \<lparr>ckpt_model = 1, ckpt_optimizer = 0,
      ckpt_state = [(''batch-size'', PInt 512), (''loss-function'', PStr ''BCE''),
                    (''learning-rate'', PFloat (Finite 0.001)), (''seed'', PInt 1225),
                    (''dataset'', PStr ''HIGGS'')],
      ckpt_kwargs = [(''epoch'', PInt 0), (''valid_ER'', PFloat (Finite 0.5))]\<rparr>
     \<in> set (new_events empty_world
              (snd (dntn_seed (example_lib [Finite 0.5]) 1 ''HIGGS'' 1225 empty_world))) \<and>
   list_all (carries_state
      [(''batch-size'', PInt 512), (''loss-function'', PStr ''BCE''),
       (''learning-rate'', PFloat (Finite 0.001)), (''seed'', PInt 1225),
       (''dataset'', PStr ''HIGGS'')])
     (new_events empty_world
        (snd (dntn_seed (example_lib [Finite 0.5]) 1 ''HIGGS'' 1225 empty_world)))"
proof -
  let ?seed = "dntn_seed (example_lib [Finite 0.5]) 1 ''HIGGS'' 1225 empty_world"
  have ev: "SaveModel (DntnSaveDir ''HIGGS'' 1225)
     \<lparr>ckpt_model = 1, ckpt_optimizer = 0, ckpt_state = dntn_state ''HIGGS'' 1225,
      ckpt_kwargs = [(''epoch'', PInt 0), (''valid_ER'', PFloat (Finite 0.5))]\<rparr>
     \<in> set (new_events empty_world (snd ?seed))"
    by (simp add: dntn_seed_def dntn_init_def dntn_epoch_def example_lib_def empty_world_def
        range_py_def Let_def load_model_def new_events_def save_model_def emit_def)
  note inst = state_record_contents [where D = "''HIGGS''" and SEED = 1225
      and lib = "example_lib [Finite 0.5]" and EPOCHS = 1 and w = empty_world]
  from inst have st: "dntn_state ''HIGGS'' 1225 =
      [(''batch-size'', PInt 512), (''loss-function'', PStr ''BCE''),
       (''learning-rate'', PFloat (Finite 0.001)), (''seed'', PInt 1225),
       (''dataset'', PStr ''HIGGS'')]"
    by blast
  from inst have "list_all (carries_state (dntn_state ''HIGGS'' 1225))
      (new_events empty_world (snd ?seed))"
    by blast
  with ev show ?thesis unfolding st by blast
qed

text \<open>
  C8. Command line of dntn.py. The script reads \<^verbatim>\<open>sys.argv[1]\<close> as the data set name, as it
  is, and \<^verbatim>\<open>int(sys.argv[2])\<close> as the worker count, and nothing else of the command line.
  With fewer than two arguments after the script name it fails with IndexError, with a
  second argument that \<^verbatim>\<open>int\<close> rejects it fails with ValueError, and in both cases the
  script ends there, with the world as it found it: nothing is loaded or trained. The
  arguments \<^verbatim>\<open>int\<close> takes are exactly the integer literals: blanks, an optional sign,
  groups of decimal digits joined by single underscores, blanks, with no more digits than
  the interpreter's limit allows; their value is the decimal value of the digits, negated
  after a minus sign. Every other second argument gives ValueError.
\<close>

theorem cli_surface:
  "read_args max_str_digits argv =
     (if length argv < 3 then Inl IndexError
      else case py_int max_str_digits (argv ! 2) of
             Inl err \<Rightarrow> Inl ValueError
           | Inr WORKERS \<Rightarrow> Inr (argv ! 1, WORKERS)) \<and>
   (case read_args max_str_digits argv of
      Inl err \<Rightarrow> dntn_main lib max_str_digits argv w = (Inl err, w)
    | Inr args \<Rightarrow> fst args = argv ! 1) \<and>
   (int_literal lead sg gs trail \<longrightarrow>
      py_int max_str_digits (lead @ sg @ join_groups gs @ trail) =
        (if 640 < length (concat gs) \<and> 0 < max_str_digits \<and> max_str_digits < length (concat gs)
         then Inl ValueError
         else Inr (if sg = ''-'' then - int (decimal_value (concat gs))
                   else int (decimal_value (concat gs))))) \<and>
   ((\<nexists>lead sg gs trail. a = lead @ sg @ join_groups gs @ trail \<and> int_literal lead sg gs trail) \<longrightarrow>
      py_int max_str_digits a = Inl ValueError)"
proof -
  have a: "read_args max_str_digits argv =
     (if length argv < 3 then Inl IndexError
      else case py_int max_str_digits (argv ! 2) of
             Inl err \<Rightarrow> Inl ValueError
           | Inr WORKERS \<Rightarrow> Inr (argv ! 1, WORKERS))"
    by (auto simp: read_args_def argv_get_def split: sum.splits dest: py_int_error)
  have b: "(case read_args max_str_digits argv of
      Inl err \<Rightarrow> dntn_main lib max_str_digits argv w = (Inl err, w)
    | Inr args \<Rightarrow> fst args = argv ! 1)"
    by (auto simp: a dntn_main_def split: sum.splits)
  have c: "int_literal lead sg gs trail \<longrightarrow>
      py_int max_str_digits (lead @ sg @ join_groups gs @ trail) =
        (if 640 < length (concat gs) \<and> 0 < max_str_digits \<and> max_str_digits < length (concat gs)
         then Inl ValueError
         else Inr (if sg = ''-'' then - int (decimal_value (concat gs))
                   else int (decimal_value (concat gs))))"
    using py_int_literal by blast
  have d: "(\<nexists>lead sg gs trail. a = lead @ sg @ join_groups gs @ trail \<and> int_literal lead sg gs trail) \<longrightarrow>
      py_int max_str_digits a = Inl ValueError"
  proof
    assume no: "\<nexists>lead sg gs trail. a = lead @ sg @ join_groups gs @ trail \<and> int_literal lead sg gs trail"
    show "py_int max_str_digits a = Inl ValueError"
    proof (cases "py_int max_str_digits a")
      case (Inl err)
      then show ?thesis by (simp add: py_int_error)
    next
      case (Inr n)
      from py_int_accepts [OF this] no show ?thesis by blast
    qed
  qed
  from a b c d show ?thesis by blast
qed

text \<open>
  Under the default limit of 4300 digits: no argument and one argument give IndexError; the
  second arguments \<^verbatim>\<open>four\<close> and a 7 after the separator 0x1C are no integer literals and give
  ValueError, and the script ends with the world untouched; a 12 written with an underscore
  between blanks, one of them 0xA0, is read as 12, and a third argument is ignored.
\<close>

theorem cli_surface_witness:
  "read_args 4300 [''dntn.py''] = Inl IndexError \<and>
   read_args 4300 [''dntn.py'', ''HIGGS''] = Inl IndexError \<and>
   (\<nexists>lead sg gs trail. ''four'' = lead @ sg @ join_groups gs @ trail \<and> int_literal lead sg gs trail) \<and>
   read_args 4300 [''dntn.py'', ''HIGGS'', ''four''] = Inl ValueError \<and>
   dntn_main (example_lib []) 4300 [''dntn.py'', ''HIGGS'', ''four''] empty_world =
     (Inl ValueError, empty_world) \<and>
   read_args 4300 [''dntn.py'', ''HIGGS'', [CHR 0x1C, CHR ''7'']] = Inl ValueError \<and>
   int_literal [CHR 0xA0] [] [''1'', ''2''] '' '' \<and>
   read_args 4300 [''dntn.py'', ''HIGGS'', [CHR 0xA0, CHR ''1'', CHR ''_'', CHR ''2'', CHR '' ''],
                   ''extra''] = Inr (''HIGGS'', 12)"
proof -
  have no: "\<nexists>lead sg gs trail. ''four'' = lead @ sg @ join_groups gs @ trail \<and> int_literal lead sg gs trail"
  proof
    assume "\<exists>lead sg gs trail. ''four'' = lead @ sg @ join_groups gs @ trail \<and> int_literal lead sg gs trail"
    then obtain lead sg gs trail where eq: "''four'' = lead @ sg @ join_groups gs @ trail"
      and lit: "int_literal lead sg gs trail" by blast
    from lit have gs: "gs \<noteq> []" "list_all (\<lambda>g. g \<noteq> [] \<and> list_all is_digit g) gs"
      by (simp_all add: int_literal_def)
    from join_groups_ends [OF gs]
    have ne: "join_groups gs \<noteq> []" and dg: "is_digit (hd (join_groups gs))" by simp_all
    from ne have "hd (join_groups gs) \<in> set (join_groups gs)" by simp
    then have "hd (join_groups gs) \<in> set (lead @ sg @ join_groups gs @ trail)" by simp
    then have "hd (join_groups gs) \<in> set ''four''" by (simp only: eq [symmetric])
    with dg show False by (auto simp: is_digit_cases)
  qed
  have p1: "py_int 4300 [CHR 0x1C, CHR ''7''] = Inl ValueError"
    by (simp add: py_int_def strip_def py_isspace_def unsigned_int_def digit_of_def Let_def)
  have lit: "int_literal [CHR 0xA0] [] [''1'', ''2''] '' ''"
    by (simp add: int_literal_def py_isspace_def is_digit_def)
  note digits = cli_surface [where max_str_digits = 4300 and lead = "[CHR 0xA0]" and sg = "[]"
      and gs = "[''1'', ''2'']" and trail = "'' ''" and a = "''four''"
      and argv = "[''dntn.py'', ''HIGGS'', ''four'']" and lib = "example_lib []"
      and w = empty_world]
  from digits lit have p2: "py_int 4300 [CHR 0xA0, CHR ''1'', CHR ''_'', CHR ''2'', CHR '' ''] = Inr 12"
    by (simp add: join_groups_def decimal_value_def)
  from digits no have p3: "py_int 4300 ''four'' = Inl ValueError" by blast
  from cli_surface [where max_str_digits = 4300 and argv = "[''dntn.py'']"
      and lib = "example_lib []" and w = empty_world and lead = "[]" and sg = "[]" and gs = "[]"
      and trail = "[]" and a = "[]"]
  have a: "read_args 4300 [''dntn.py''] = Inl IndexError" by simp
  from cli_surface [where max_str_digits = 4300 and argv = "[''dntn.py'', ''HIGGS'']"
      and lib = "example_lib []" and w = empty_world and lead = "[]" and sg = "[]" and gs = "[]"
      and trail = "[]" and a = "[]"]
  have b: "read_args 4300 [''dntn.py'', ''HIGGS''] = Inl IndexError" by simp
  from digits p3 have c: "read_args 4300 [''dntn.py'', ''HIGGS'', ''four''] = Inl ValueError"
    by simp
  from digits c have d: "dntn_main (example_lib []) 4300 [''dntn.py'', ''HIGGS'', ''four'']
      empty_world = (Inl ValueError, empty_world)"
    by simp
  from cli_surface [where max_str_digits = 4300
      and argv = "[''dntn.py'', ''HIGGS'', [CHR 0x1C, CHR ''7'']]"
      and lib = "example_lib []" and w = empty_world and lead = "[]" and sg = "[]" and gs = "[]"
      and trail = "[]" and a = "[]"] p1
  have e: "read_args 4300 [''dntn.py'', ''HIGGS'', [CHR 0x1C, CHR ''7'']] = Inl ValueError"
    by simp
  from cli_surface [where max_str_digits = 4300
      and argv = "[''dntn.py'', ''HIGGS'', [CHR 0xA0, CHR ''1'', CHR ''_'', CHR ''2'', CHR '' ''],
                   ''extra'']"
      and lib = "example_lib []" and w = empty_world and lead = "[]" and sg = "[]" and gs = "[]"
      and trail = "[]" and a = "[]"] p2
  have f: "read_args 4300 [''dntn.py'', ''HIGGS'',
      [CHR 0xA0, CHR ''1'', CHR ''_'', CHR ''2'', CHR '' ''], ''extra''] = Inr (''HIGGS'', 12)"
    by simp
  from a b no c d e lit f show ?thesis by blast
qed

text \<open>
  C9. First-epoch checkpoint guarantee. With at least one planned epoch, when the first
  epoch's validation metric is not NaN it passes the improvement test against plus
  infinity, the run saves a checkpoint to its save directory, and at the end of the run
  that directory holds a checkpoint saved by this run. The run of dntn.py then returns the
  test loss of that checkpoint's model; the trial of tune_clustering.py is either pruned
  by a later NaN or returns the purity of that checkpoint's model. Neither fails for a
  missing checkpoint.
\<close>

theorem first_epoch_checkpoint_guarantee:
  assumes "1 \<le> EPOCHS"
  shows "(let m0 = DNDT lib SEED;
             v0 = evaluate lib 0 (fst (train_stochastic lib (Finite 0) 0 (m0, QHAdam lib m0)));
             dir = DntnSaveDir D SEED;
             (out, w') = dntn_seed lib EPOCHS D SEED w
          in v0 \<noteq> NaN \<longrightarrow>
               float_le v0 (best_val_loss (dntn_init lib SEED w)) \<and>
               (\<exists>c. SaveModel dir c \<in> set (new_events w w') \<and> disk w' dir = Some c \<and>
                    out = Inr (evaluate_test lib (ckpt_model c)))) \<and>
         (let flag = float_lt (Finite 0) (REG t);
             m0 = LTRegressor lib (TREE_DEPTH t) flag;
             v0 = evaluate lib 0 (fst (train_stochastic lib (REG t) 0 (m0, QHAdam lib m0)));
             dir = TuneSaveDir (TREE_DEPTH t) (REG t);
             (out, w') = objective lib EPOCHS t w
          in v0 \<noteq> NaN \<longrightarrow>
               float_le v0 (best_val_loss (tune_init lib (TREE_DEPTH t) flag w)) \<and>
               (\<exists>c. SaveModel dir c \<in> set (new_events w w') \<and> disk w' dir = Some c \<and>
                    (out = Inl TrialPruned \<or>
                     out = Inr (LT_dendrogram_purity lib (ckpt_model c)))))"
proof -
  let ?dir = "DntnSaveDir D SEED"
  let ?s = "dntn_epochs lib (dntn_state D SEED) ?dir EPOCHS (range_py EPOCHS)
              (dntn_init lib SEED (emit (MakeDirectory ?dir) w))"
  let ?seed = "dntn_seed lib EPOCHS D SEED w"
  let ?v0 = "evaluate lib 0 (fst (train_stochastic lib (Finite 0) 0
                                   (DNDT lib SEED, QHAdam lib (DNDT lib SEED))))"
  from dntn_seed_run [where lib = lib and D = D and SEED = SEED and EPOCHS = EPOCHS and w = w]
  obtain evs where evs:
    "run_ok ?dir (dntn_state D SEED) ''valid_ER'' (emit (MakeDirectory ?dir) w) (world ?s) evs"
    "1 \<le> EPOCHS \<and> ?v0 \<noteq> NaN \<longrightarrow> list_ex is_save evs"
    "disk (snd ?seed) = disk (world ?s)"
    "fst ?seed = (case disk (world ?s) ?dir of
                    None \<Rightarrow> Inl MissingCheckpoint
                  | Some c \<Rightarrow> Inr (evaluate_test lib (ckpt_model c)))"
    "new_events w (snd ?seed) = MakeDirectory ?dir # evs @ LoadModel ?dir #
       (case disk (world ?s) ?dir of
          None \<Rightarrow> []
        | Some c \<Rightarrow> [EvaluateTest (evaluate_test lib (ckpt_model c))])"
    by blast
  have dntn: "?v0 \<noteq> NaN \<longrightarrow>
      float_le ?v0 (best_val_loss (dntn_init lib SEED w)) \<and>
      (\<exists>c. SaveModel ?dir c \<in> set (new_events w (snd ?seed)) \<and>
           disk (snd ?seed) ?dir = Some c \<and>
           fst ?seed = Inr (evaluate_test lib (ckpt_model c)))"
  proof
    assume v: "?v0 \<noteq> NaN"
    with evs(2) assms have "list_ex is_save evs" by simp
    from run_ok_disk [OF evs(1) this]
    obtain c where c: "disk (world ?s) ?dir = Some c" "SaveModel ?dir c \<in> set evs" by blast
    have "SaveModel ?dir c \<in> set (new_events w (snd ?seed))"
      using c by (simp add: evs(5))
    moreover have "disk (snd ?seed) ?dir = Some c"
      "fst ?seed = Inr (evaluate_test lib (ckpt_model c))"
      using c by (simp_all add: evs(3) evs(4))
    moreover have "float_le ?v0 (best_val_loss (dntn_init lib SEED w))"
      using v by (simp add: dntn_init_def Let_def)
    ultimately show "float_le ?v0 (best_val_loss (dntn_init lib SEED w)) \<and>
      (\<exists>c. SaveModel ?dir c \<in> set (new_events w (snd ?seed)) \<and>
           disk (snd ?seed) ?dir = Some c \<and>
           fst ?seed = Inr (evaluate_test lib (ckpt_model c)))"
      by blast
  qed
  let ?tdir = "TuneSaveDir (TREE_DEPTH t) (REG t)"
  let ?flag = "float_lt (Finite 0) (REG t)"
  let ?r = "tune_epochs lib (tune_state (REG t)) ?tdir (MonitorTree_init ?flag ?tdir)
              (REG t) (range_py EPOCHS)
              (tune_init lib (TREE_DEPTH t) ?flag (emit (MakeDirectory ?tdir) w))"
  let ?obj = "objective lib EPOCHS t w"
  let ?u0 = "evaluate lib 0 (fst (train_stochastic lib (REG t) 0
                (LTRegressor lib (TREE_DEPTH t) ?flag,
                 QHAdam lib (LTRegressor lib (TREE_DEPTH t) ?flag))))"
  from objective_run [where lib = lib and t = t and EPOCHS = EPOCHS and w = w]
  obtain tevs where tevs:
    "run_ok ?tdir (tune_state (REG t)) ''val_mse'' (emit (MakeDirectory ?tdir) w)
       (world (snd ?r)) tevs"
    "1 \<le> EPOCHS \<and> (\<not> fst ?r \<or> ?u0 \<noteq> NaN) \<longrightarrow> list_ex is_save tevs"
    "disk (snd ?obj) = disk (world (snd ?r))"
    "fst ?obj = (if fst ?r then Inl TrialPruned
            else case disk (world (snd ?r)) ?tdir of
                   None \<Rightarrow> Inl MissingCheckpoint
                 | Some c \<Rightarrow> if 1 \<le> EPOCHS then Inr (LT_dendrogram_purity lib (ckpt_model c))
                             else Inl NameError)"
    "new_events w (snd ?obj) = MakeDirectory ?tdir # tevs @
           (if fst ?r then []
            else LoadModel ?tdir #
              (case disk (world (snd ?r)) ?tdir of
                 None \<Rightarrow> []
               | Some c \<Rightarrow>
                   DendrogramPurity (LT_dendrogram_purity lib (ckpt_model c)) #
                   (if 1 \<le> EPOCHS
                    then [Writer ?tdir (AddScalars ''val''
                            [(''Dendrogram Purity'', LT_dendrogram_purity lib (ckpt_model c))]
                            (EPOCHS - 1)),
                          Writer ?tdir (ExportScalarsToJson default_logfile),
                          Writer ?tdir WriterClose]
                    else [])))"
    by blast
  have tune: "?u0 \<noteq> NaN \<longrightarrow>
      float_le ?u0 (best_val_loss (tune_init lib (TREE_DEPTH t) ?flag w)) \<and>
      (\<exists>c. SaveModel ?tdir c \<in> set (new_events w (snd ?obj)) \<and>
           disk (snd ?obj) ?tdir = Some c \<and>
           (fst ?obj = Inl TrialPruned \<or>
            fst ?obj = Inr (LT_dendrogram_purity lib (ckpt_model c))))"
  proof
    assume v: "?u0 \<noteq> NaN"
    with tevs(2) assms have "list_ex is_save tevs" by simp
    from run_ok_disk [OF tevs(1) this]
    obtain c where c: "disk (world (snd ?r)) ?tdir = Some c" "SaveModel ?tdir c \<in> set tevs"
      by blast
    have "SaveModel ?tdir c \<in> set (new_events w (snd ?obj))"
      using c by (simp add: tevs(5))
    moreover have "disk (snd ?obj) ?tdir = Some c"
      using c by (simp add: tevs(3))
    moreover have "fst ?obj = Inl TrialPruned \<or>
            fst ?obj = Inr (LT_dendrogram_purity lib (ckpt_model c))"
      using c assms by (simp add: tevs(4))
    moreover have "float_le ?u0 (best_val_loss (tune_init lib (TREE_DEPTH t) ?flag w))"
      using v by (simp add: tune_init_def Let_def)
    ultimately show "float_le ?u0 (best_val_loss (tune_init lib (TREE_DEPTH t) ?flag w)) \<and>
      (\<exists>c. SaveModel ?tdir c \<in> set (new_events w (snd ?obj)) \<and>
           disk (snd ?obj) ?tdir = Some c \<and>
           (fst ?obj = Inl TrialPruned \<or>
            fst ?obj = Inr (LT_dendrogram_purity lib (ckpt_model c))))"
      by blast
  qed
  from dntn tune show ?thesis by (simp add: Let_def split_def)
qed

text \<open>
  The script's own single epoch with metric 0.5, and a trial of two epochs with metrics
  2 and 1: both end with a result computed from a checkpoint, not with a failed load.
\<close>

theorem first_epoch_checkpoint_guarantee_witness:
  "(1::int) \<le> EPOCHS_dntn \<and> Finite 0.5 \<noteq> NaN \<and>
   fst (dntn_seed (example_lib [Finite 0.5]) EPOCHS_dntn ''HIGGS'' 1225 empty_world) =
     Inr (Finite 1) \<and>
   fst (objective (example_lib [Finite 2, Finite 1]) 2
          \<lparr>TREE_DEPTH = 3, REG = Finite 0\<rparr> empty_world) = Inr (Finite 2)"
proof -
  let ?seed = "dntn_seed (example_lib [Finite 0.5]) 1 ''HIGGS'' 1225 empty_world"
  let ?t = "\<lparr>TREE_DEPTH = 3, REG = Finite 0\<rparr>"
  let ?obj = "objective (example_lib [Finite 2, Finite 1]) 2 ?t empty_world"
  have one: "(1::int) \<le> 1" "(1::int) \<le> 2" by simp_all
  have d: "disk (snd ?seed) (DntnSaveDir ''HIGGS'' 1225) =
      Some \<lparr>ckpt_model = 1, ckpt_optimizer = 0, ckpt_state = dntn_state ''HIGGS'' 1225,
            ckpt_kwargs = [(''epoch'', PInt 0), (''valid_ER'', PFloat (Finite 0.5))]\<rparr>"
    by (simp add: dntn_seed_def dntn_init_def dntn_epoch_def example_lib_def empty_world_def
        range_py_def Let_def load_model_def save_model_def emit_def)
  have o: "disk (snd ?obj) (TuneSaveDir 3 (Finite 0)) =
      Some \<lparr>ckpt_model = 2, ckpt_optimizer = 1, ckpt_state = tune_state (Finite 0),
            ckpt_kwargs = [(''epoch'', PInt 1), (''val_mse'', PFloat (Finite 1))]\<rparr>"
    "fst ?obj \<noteq> Inl TrialPruned"
    by (simp_all add: objective_def tune_init_def tune_epoch_def MonitorTree_init_def
        MonitorTree_write_def MonitorTree_close_def add_scalars_def example_lib_def
        empty_world_def range_py_def upt_conv_Cons Let_def load_model_def
        save_model_def emit_def numeral_nat)
  from first_epoch_checkpoint_guarantee [OF one(1), where lib = "example_lib [Finite 0.5]"
      and D = "''HIGGS''" and SEED = 1225 and w = empty_world] d
  have a: "fst ?seed = Inr (Finite 1)"
    by (simp add: split_def Let_def example_lib_def)
  from first_epoch_checkpoint_guarantee [OF one(2), where lib = "example_lib [Finite 2, Finite 1]"
      and t = ?t and w = empty_world] o
  have b: "fst ?obj = Inr (Finite 2)"
    by (simp add: split_def Let_def example_lib_def)
  from a b show ?thesis by (simp add: EPOCHS_dntn_def)
qed

text \<open>
  C10. Conditionality of \<^verbatim>\<open>MonitorTree.write\<close>. A call writes the two tree-statistics groups
  (the norms of eta, then the norm of d) when its \<^verbatim>\<open>report_tree\<close> argument and the monitor's
  pruning flag are both true, and never otherwise; after them, in every case, it writes one
  group for each keyword metric, in their order. The pruning flag is the one given when the
  monitor was made; the call changes nothing on the disk.
\<close>

theorem monitor_write_conditionality:
  "new_events w (MonitorTree_write lib self m it report_tree metrics w) =
     (if report_tree \<and> pruning self
      then [Writer (writer self) (AddScalars ''variables/eta_group''
              [(''linf'', norm_eta lib PosInf m), (''l1'', norm_eta lib (Finite 1) m),
               (''l0'', norm_clamp_eta lib (Finite 0) m)] it),
            Writer (writer self) (AddScalars ''variables/d_group''
              [(''l0'', norm_clamp_d lib (Finite 0) m)] it)]
      else []) @
     map (\<lambda>(key, item). Writer (writer self) (AddScalars key item it)) metrics \<and>
   pruning (MonitorTree_init flag logdir) = flag \<and>
   writer (MonitorTree_init flag logdir) = logdir \<and>
   disk (MonitorTree_write lib self m it report_tree metrics w) = disk w"
  by (simp add: new_events_def trace_MonitorTree_write eta_group_def d_group_def
      MonitorTree_init_def)

text \<open>
  A monitor made with pruning on writes the tree groups before the metric when asked to
  report the tree, and only the metric when not; a monitor made with pruning off writes only
  the metric even when asked.
\<close>

theorem monitor_write_conditionality_witness:
  "length (new_events empty_world
     (MonitorTree_write (example_lib []) (MonitorTree_init True (TuneSaveDir 2 (Finite 1)))
        4 7 True [(''train'', [(''lr'', Finite 0.1)])] empty_world)) = 3 \<and>
   new_events empty_world
     (MonitorTree_write (example_lib []) (MonitorTree_init True (TuneSaveDir 2 (Finite 1)))
        4 7 False [(''train'', [(''lr'', Finite 0.1)])] empty_world) =
     [Writer (TuneSaveDir 2 (Finite 1)) (AddScalars ''train'' [(''lr'', Finite 0.1)] 7)] \<and>
   new_events empty_world
     (MonitorTree_write (example_lib []) (MonitorTree_init False (TuneSaveDir 2 (Finite 1)))
        4 7 True [(''train'', [(''lr'', Finite 0.1)])] empty_world) =
     [Writer (TuneSaveDir 2 (Finite 1)) (AddScalars ''train'' [(''lr'', Finite 0.1)] 7)]"
  using monitor_write_conditionality [where w = empty_world and lib = "example_lib []"
      and self = "MonitorTree_init True (TuneSaveDir 2 (Finite 1))" and m = 4 and it = 7
      and report_tree = True and metrics = "[(''train'', [(''lr'', Finite 0.1)])]"
      and flag = True and logdir = "TuneSaveDir 2 (Finite 1)"]
    monitor_write_conditionality [where w = empty_world and lib = "example_lib []"
      and self = "MonitorTree_init True (TuneSaveDir 2 (Finite 1))" and m = 4 and it = 7
      and report_tree = False and metrics = "[(''train'', [(''lr'', Finite 0.1)])]"
      and flag = True and logdir = "TuneSaveDir 2 (Finite 1)"]
    monitor_write_conditionality [where w = empty_world and lib = "example_lib []"
      and self = "MonitorTree_init False (TuneSaveDir 2 (Finite 1))" and m = 4 and it = 7
      and report_tree = True and metrics = "[(''train'', [(''lr'', Finite 0.1)])]"
      and flag = False and logdir = "TuneSaveDir 2 (Finite 1)"]
  by simp

end
